theory Spec2Isabelle
  imports Complex_Main
begin

section \<open>JavaScript numbers\<close>

text \<open>
  The service computes on JavaScript Numbers (IEEE 754 doubles). A Number is modelled as
  a real number or one of the three special values. What JavaScript does where HOL's
  total functions would silently return 0 is written out: \<open>x / 0\<close> is an infinity or
  \<open>NaN\<close>, every comparison with \<open>NaN\<close> is false, \<open>Math.max\<close> and \<open>Math.min\<close> propagate
  \<open>NaN\<close>. The rounding of every arithmetic result is a parameter \<open>r\<close> of the operations:
  \<open>exact\<close> rounds nothing, \<open>double\<close> rounds to the nearest binary64 number, ties to even:
  a 53-bit significand from exponent -1022 up, and multiples of \<open>2^-1074\<close> below (the
  subnormal numbers, with underflow to 0). A decimal literal of the source that is not a
  binary fraction (\<open>0.85\<close>, \<open>0.05\<close>, ...) is rounded as well: it is \<open>Num (r 0.85)\<close>.
  Overflow to an infinity and the sign of zero are not modelled.
  A value that can be \<open>undefined\<close> (a missing field, a read past the end of an array) is
  a \<open>jsnum option\<close>, \<open>None\<close> standing for \<open>undefined\<close>.
\<close>

datatype jsnum = Num real | PosInf | NegInf | NaN

type_synonym rounding = "real \<Rightarrow> real"

definition exact :: rounding where
  "exact x = x"

definition round_half_even :: "real \<Rightarrow> int" where
  "round_half_even q =
     (let f = \<lfloor>q\<rfloor>; d = q - of_int f
      in if d < 1 / 2 then f else if 1 / 2 < d then f + 1 else if even f then f else f + 1)"

text \<open>The binary exponent of a number, and -1022 for the subnormal numbers.\<close>

definition exponent :: "real \<Rightarrow> int" where
  "exponent x = max \<lfloor>log 2 \<bar>x\<bar>\<rfloor> (- 1022)"

definition double :: rounding where
  "double x =
     (if x = 0 then 0
      else let e = exponent x - 52
           in of_int (round_half_even (x / 2 powr of_int e)) * 2 powr of_int e)"

text \<open>
  Three properties of a rounding. It is faithful when its relative error is at most
  \<open>2^-53\<close> everywhere: \<open>exact\<close> is, \<open>double\<close> is not (a subnormal result has a larger
  relative error), so a statement under \<open>faithful r\<close> is one about arithmetic without
  underflow. It keeps the sign when it never rounds across 0. It rounds to nearest when,
  in addition, its error is at most \<open>2^-53\<close> relative or \<open>2^-1075\<close> absolute, it never
  rounds across a number it can return, and the difference of two different numbers it can
  return does not round to 0 (gradual underflow): \<open>exact\<close> and \<open>double\<close> both do.
\<close>

definition faithful :: "rounding \<Rightarrow> bool" where
  "faithful r \<longleftrightarrow> (\<forall>x. \<bar>r x - x\<bar> \<le> \<bar>x\<bar> / 2 ^ 53)"

definition keeps_sign :: "rounding \<Rightarrow> bool" where
  "keeps_sign r \<longleftrightarrow> r 0 = 0 \<and> (\<forall>x. 0 < x \<longrightarrow> 0 \<le> r x) \<and> (\<forall>x. x < 0 \<longrightarrow> r x \<le> 0)"

definition to_nearest :: "rounding \<Rightarrow> bool" where
  "to_nearest r \<longleftrightarrow>
     keeps_sign r \<and>
     (\<forall>x. \<bar>r x - x\<bar> \<le> max (\<bar>x\<bar> / 2 ^ 53) (1 / 2 ^ 1075)) \<and>
     (\<forall>x y. r y \<le> x \<longrightarrow> r y \<le> r x) \<and>
     (\<forall>x y. x \<le> r y \<longrightarrow> r x \<le> r y) \<and>
     (\<forall>x y. r y < r x \<longrightarrow> 0 < r (r x - r y))"

fun js_pos :: "jsnum \<Rightarrow> bool" where
  "js_pos (Num a) = (0 < a)"
| "js_pos PosInf = True"
| "js_pos NegInf = False"
| "js_pos NaN = False"

fun js_neg :: "jsnum \<Rightarrow> jsnum" where
  "js_neg (Num a) = Num (- a)"
| "js_neg PosInf = NegInf"
| "js_neg NegInf = PosInf"
| "js_neg NaN = NaN"

fun js_add :: "rounding \<Rightarrow> jsnum \<Rightarrow> jsnum \<Rightarrow> jsnum" where
  "js_add r (Num a) (Num b) = Num (r (a + b))"
| "js_add r NaN _ = NaN"
| "js_add r _ NaN = NaN"
| "js_add r PosInf NegInf = NaN"
| "js_add r NegInf PosInf = NaN"
| "js_add r PosInf _ = PosInf"
| "js_add r _ PosInf = PosInf"
| "js_add r NegInf _ = NegInf"
| "js_add r _ NegInf = NegInf"

definition js_sub :: "rounding \<Rightarrow> jsnum \<Rightarrow> jsnum \<Rightarrow> jsnum" where
  "js_sub r a b = js_add r a (js_neg b)"

fun js_mul :: "rounding \<Rightarrow> jsnum \<Rightarrow> jsnum \<Rightarrow> jsnum" where
  "js_mul r (Num a) (Num b) = Num (r (a * b))"
| "js_mul r NaN _ = NaN"
| "js_mul r _ NaN = NaN"
| "js_mul r a b =
     (if a = Num 0 \<or> b = Num 0 then NaN
      else if js_pos a = js_pos b then PosInf else NegInf)"

fun js_div :: "rounding \<Rightarrow> jsnum \<Rightarrow> jsnum \<Rightarrow> jsnum" where
  "js_div r (Num a) (Num b) =
     (if b = 0 then (if a = 0 then NaN else if 0 < a then PosInf else NegInf)
      else Num (r (a / b)))"
| "js_div r NaN _ = NaN"
| "js_div r _ NaN = NaN"
| "js_div r (Num a) _ = Num 0"
| "js_div r a (Num b) = (if js_pos a = (0 \<le> b) then PosInf else NegInf)"
| "js_div r _ _ = NaN"

fun js_lt :: "jsnum \<Rightarrow> jsnum \<Rightarrow> bool" where
  "js_lt (Num a) (Num b) = (a < b)"
| "js_lt NaN _ = False"
| "js_lt _ NaN = False"
| "js_lt _ NegInf = False"
| "js_lt NegInf _ = True"
| "js_lt PosInf _ = False"
| "js_lt _ PosInf = True"

definition js_gt :: "jsnum \<Rightarrow> jsnum \<Rightarrow> bool" where
  "js_gt a b = js_lt b a"

text \<open>\<open>Math.max\<close> and \<open>Math.min\<close> of two Numbers, \<open>Math.abs\<close>, \<open>Math.sqrt\<close> and
  \<open>Math.pow(x, 2)\<close>.\<close>

definition js_max :: "jsnum \<Rightarrow> jsnum \<Rightarrow> jsnum" where
  "js_max a b = (if a = NaN \<or> b = NaN then NaN else if js_lt a b then b else a)"

definition js_min :: "jsnum \<Rightarrow> jsnum \<Rightarrow> jsnum" where
  "js_min a b = (if a = NaN \<or> b = NaN then NaN else if js_lt b a then b else a)"

fun js_abs :: "jsnum \<Rightarrow> jsnum" where
  "js_abs (Num a) = Num \<bar>a\<bar>"
| "js_abs PosInf = PosInf"
| "js_abs NegInf = PosInf"
| "js_abs NaN = NaN"

fun js_sqrt :: "rounding \<Rightarrow> jsnum \<Rightarrow> jsnum" where
  "js_sqrt r (Num a) = (if a < 0 then NaN else Num (r (sqrt a)))"
| "js_sqrt r PosInf = PosInf"
| "js_sqrt r NegInf = NaN"
| "js_sqrt r NaN = NaN"

definition js_pow2 :: "rounding \<Rightarrow> jsnum \<Rightarrow> jsnum" where
  "js_pow2 r x = js_mul r x x"

text \<open>\<open>xs.reduce((a, b) => a + b, 0)\<close>: a left fold from 0.\<close>

definition js_sum :: "rounding \<Rightarrow> jsnum list \<Rightarrow> jsnum" where
  "js_sum r xs = foldl (js_add r) (Num 0) xs"

text \<open>An \<open>undefined\<close> operand of an arithmetic operation or of a comparison is \<open>NaN\<close>.\<close>

fun to_number :: "jsnum option \<Rightarrow> jsnum" where
  "to_number None = NaN"
| "to_number (Some x) = x"

text \<open>\<open>xs[i]\<close> is \<open>undefined\<close> past the end of the array; \<open>xs[xs.length - 1]\<close> is
  \<open>xs[-1]\<close>, that is \<open>undefined\<close>, on an empty array.\<close>

definition at_index :: "'a list \<Rightarrow> nat \<Rightarrow> 'a option" where
  "at_index xs i = (if i < length xs then Some (xs ! i) else None)"

definition last_elem :: "'a list \<Rightarrow> 'a option" where
  "last_elem xs = (if xs = [] then None else Some (xs ! (length xs - 1)))"

text \<open>
  \<open>xs.slice(-n)\<close>: the last \<open>n\<close> elements (all of them when there are fewer); for
  \<open>n = 0\<close> the start index is \<open>-0 = 0\<close> and the slice is the whole array.
  \<open>xs.slice(0, n)\<close> for an integer \<open>n\<close>: the first \<open>n\<close> elements, and for a negative
  \<open>n\<close> all but the last \<open>-n\<close>.
\<close>

definition slice_last :: "nat \<Rightarrow> 'a list \<Rightarrow> 'a list" where
  "slice_last n xs = (if n = 0 then xs else drop (length xs - n) xs)"

definition slice_to :: "int \<Rightarrow> 'a list \<Rightarrow> 'a list" where
  "slice_to n xs = (if n < 0 then take (length xs - nat (- n)) xs else take (nat n) xs)"

section \<open>Technical analysis\<close>

text \<open>
  The indicator functions are the same in both programs of the repository (the service
  with Telegram notifications, \<open>part_000\<close> lines 1 to 320, and \<open>signal_service.js\<close>,
  lines 321 to 693); \<open>calculateBollingerBands\<close> exists in \<open>signal_service.js\<close> only.
  A lookback period is a count, modelled as a \<open>nat\<close>.
\<close>

subsection \<open>calculateRSI\<close>

text \<open>
  \<^verbatim>\<open>
  function calculateRSI(prices, period = 14) {
    if (prices.length < period + 1) return 50;
    const gains = [], losses = [];
    for (let i = 1; i < prices.length; i++) {
      const change = prices[i] - prices[i - 1];
      gains.push(change > 0 ? change : 0);
      losses.push(change < 0 ? Math.abs(change) : 0);
    }
    let avgGain = gains.slice(-period).reduce((a, b) => a + b, 0) / period;
    let avgLoss = losses.slice(-period).reduce((a, b) => a + b, 0) / period;
    for (let i = period; i < gains.length; i++) {
      avgGain = (avgGain * (period - 1) + gains[i]) / period;
      avgLoss = (avgLoss * (period - 1) + losses[i]) / period;
    }
    if (avgLoss === 0) return 100;
    return 100 - (100 / (1 + avgGain / avgLoss));
  }
  \<close>
\<close>

definition price_changes :: "rounding \<Rightarrow> jsnum list \<Rightarrow> jsnum list" where
  "price_changes r prices =
     map (\<lambda>i. js_sub r (prices ! i) (prices ! (i - 1))) [1..<length prices]"

definition wilder :: "rounding \<Rightarrow> nat \<Rightarrow> jsnum \<Rightarrow> jsnum \<Rightarrow> jsnum" where
  "wilder r period avg new =
     js_div r (js_add r (js_mul r avg (Num (real period - 1))) new) (Num (real period))"

definition calculateRSI :: "rounding \<Rightarrow> jsnum list \<Rightarrow> nat \<Rightarrow> jsnum" where
  "calculateRSI r prices period =
     (if length prices < period + 1 then Num 50
      else
        let gains = map (\<lambda>change. if js_gt change (Num 0) then change else Num 0)
                      (price_changes r prices);
            losses = map (\<lambda>change. if js_lt change (Num 0) then js_abs change else Num 0)
                       (price_changes r prices);
            avgGain0 = js_div r (js_sum r (slice_last period gains)) (Num (real period));
            avgLoss0 = js_div r (js_sum r (slice_last period losses)) (Num (real period));
            (avgGain, avgLoss) =
              foldl (\<lambda>(avgGain, avgLoss) i.
                       (wilder r period avgGain (gains ! i), wilder r period avgLoss (losses ! i)))
                (avgGain0, avgLoss0) [period..<length gains]
        in if avgLoss = Num 0 then Num 100
           else js_sub r (Num 100)
                  (js_div r (Num 100) (js_add r (Num 1) (js_div r avgGain avgLoss))))"

subsection \<open>calculateEMA\<close>

text \<open>
  \<^verbatim>\<open>
  function calculateEMA(data, period) {
    if (data.length < period) return data[data.length - 1];
    const multiplier = 2 / (period + 1);
    let ema = data.slice(0, period).reduce((a, b) => a + b, 0) / period;
    for (let i = period; i < data.length; i++) {
      ema = (data[i] - ema) * multiplier + ema;
    }
    return ema;
  }
  \<close>
\<close>

definition calculateEMA :: "rounding \<Rightarrow> jsnum list \<Rightarrow> nat \<Rightarrow> jsnum option" where
  "calculateEMA r data period =
     (if length data < period then last_elem data
      else
        let multiplier = js_div r (Num 2) (Num (real period + 1));
            ema0 = js_div r (js_sum r (take period data)) (Num (real period))
        in Some (foldl (\<lambda>ema i. js_add r (js_mul r (js_sub r (data ! i) ema) multiplier) ema)
                   ema0 [period..<length data]))"

subsection \<open>calculateMACD\<close>

text \<open>
  \<^verbatim>\<open>
  function calculateMACD(prices) {
    if (prices.length < 35) return { macd: 0, signal: 0, bullish: true };
    const ema12 = calculateEMA(prices, 12);
    const ema26 = calculateEMA(prices, 26);
    const macdLine = ema12 - ema26;
    const signalLine = macdLine * 0.85;
    return { macd: macdLine, signal: signalLine, histogram: macdLine - signalLine,
             bullish: macdLine > signalLine };
  }
  \<close>
  The object returned for a short series has no \<open>histogram\<close> field: reading it gives
  \<open>undefined\<close>.
\<close>

record macd_result =
  macd :: jsnum
  signal :: jsnum
  histogram :: "jsnum option"
  bullish :: bool

definition calculateMACD :: "rounding \<Rightarrow> jsnum list \<Rightarrow> macd_result" where
  "calculateMACD r prices =
     (if length prices < 35
      then \<lparr>macd = Num 0, signal = Num 0, histogram = None, bullish = True\<rparr>
      else
        let ema12 = calculateEMA r prices 12;
            ema26 = calculateEMA r prices 26;
            macdLine = js_sub r (to_number ema12) (to_number ema26);
            signalLine = js_mul r macdLine (Num (r 0.85))
        in \<lparr>macd = macdLine, signal = signalLine,
            histogram = Some (js_sub r macdLine signalLine),
            bullish = js_gt macdLine signalLine\<rparr>)"

subsection \<open>calculateBollingerBands\<close>

text \<open>
  \<^verbatim>\<open>
  function calculateBollingerBands(prices, period = 20, stdMult = 2) {
    if (prices.length < period) return { upper: 0, middle: 0, lower: 0, position: 0 };
    const slice = prices.slice(-period);
    const sma = slice.reduce((a, b) => a + b, 0) / period;
    const stdDev = Math.sqrt(slice.map(p => Math.pow(p - sma, 2))
                               .reduce((a, b) => a + b, 0) / period);
    const currentPrice = prices[prices.length - 1];
    return {
      upper: sma + (stdDev * stdMult),
      middle: sma,
      lower: sma - (stdDev * stdMult),
      position: (currentPrice - sma) / (stdDev * 2)
    };
  }
  \<close>
\<close>

record bollinger =
  upper :: jsnum
  middle :: jsnum
  lower :: jsnum
  position :: jsnum

definition calculateBollingerBands :: "rounding \<Rightarrow> jsnum list \<Rightarrow> nat \<Rightarrow> jsnum \<Rightarrow> bollinger" where
  "calculateBollingerBands r prices period stdMult =
     (if length prices < period
      then \<lparr>upper = Num 0, middle = Num 0, lower = Num 0, position = Num 0\<rparr>
      else
        let slice = slice_last period prices;
            sma = js_div r (js_sum r slice) (Num (real period));
            stdDev = js_sqrt r (js_div r (js_sum r (map (\<lambda>p. js_pow2 r (js_sub r p sma)) slice))
                                  (Num (real period)));
            currentPrice = to_number (last_elem prices)
        in \<lparr>upper = js_add r sma (js_mul r stdDev stdMult),
            middle = sma,
            lower = js_sub r sma (js_mul r stdDev stdMult),
            position = js_div r (js_sub r currentPrice sma) (js_mul r stdDev (Num 2))\<rparr>)"

subsection \<open>calculateATR\<close>

text \<open>
  \<^verbatim>\<open>
  function calculateATR(highs, lows, closes, period = 14) {
    if (highs.length < period + 1) return 0;
    const trs = [];
    for (let i = 1; i < highs.length; i++) {
      trs.push(Math.max(highs[i] - lows[i], Math.abs(highs[i] - closes[i - 1]),
                        Math.abs(lows[i] - closes[i - 1])));
    }
    let atr = trs.slice(0, period).reduce((a, b) => a + b, 0) / period;
    for (let i = period; i < trs.length; i++) { atr = (atr * (period - 1) + trs[i]) / period; }
    return atr;
  }
  \<close>
\<close>

definition true_range :: "rounding \<Rightarrow> jsnum list \<Rightarrow> jsnum list \<Rightarrow> jsnum list \<Rightarrow> nat \<Rightarrow> jsnum" where
  "true_range r highs lows closes i =
     js_max (js_max (js_sub r (highs ! i) (to_number (at_index lows i)))
               (js_abs (js_sub r (highs ! i) (to_number (at_index closes (i - 1))))))
       (js_abs (js_sub r (to_number (at_index lows i)) (to_number (at_index closes (i - 1)))))"

definition calculateATR :: "rounding \<Rightarrow> jsnum list \<Rightarrow> jsnum list \<Rightarrow> jsnum list \<Rightarrow> nat \<Rightarrow> jsnum" where
  "calculateATR r highs lows closes period =
     (if length highs < period + 1 then Num 0
      else
        let trs = map (true_range r highs lows closes) [1..<length highs];
            atr0 = js_div r (js_sum r (take period trs)) (Num (real period))
        in foldl (\<lambda>atr i. wilder r period atr (trs ! i)) atr0 [period..<length trs])"

subsection \<open>generateSimulatedHistory\<close>

text \<open>
  \<^verbatim>\<open>
  function generateSimulatedHistory(currentPrice, change24h) {
    const history = [];
    let price = currentPrice / (1 + change24h / 100);
    for (let i = 0; i < 60; i++) {
      history.push(price);
      const drift = (currentPrice - price) / 60;
      const noise = (Math.random() - 0.5) * price * 0.02;
      price = Math.max(price + drift + noise, price * 0.95);
      history.push(price);
    }
    return history;
  }
  \<close>
  \<open>Math.random()\<close> is the one effect: the function takes the sequence \<open>rand\<close> of the
  numbers the calls return, \<open>rand i\<close> in iteration \<open>i\<close>.
\<close>

definition next_price :: "rounding \<Rightarrow> jsnum \<Rightarrow> jsnum \<Rightarrow> real \<Rightarrow> jsnum" where
  "next_price r currentPrice price u =
     (let drift = js_div r (js_sub r currentPrice price) (Num 60);
          noise = js_mul r (js_mul r (js_sub r (Num u) (Num 0.5)) price) (Num (r 0.02))
      in js_max (js_add r (js_add r price drift) noise) (js_mul r price (Num (r 0.95))))"

function history_loop ::
  "rounding \<Rightarrow> (nat \<Rightarrow> real) \<Rightarrow> jsnum \<Rightarrow> nat \<Rightarrow> jsnum \<Rightarrow> jsnum list \<Rightarrow> jsnum list" where
  "history_loop r rand currentPrice i price history =
     (if i < 60
      then history_loop r rand currentPrice (i + 1) (next_price r currentPrice price (rand i))
             (history @ [price, next_price r currentPrice price (rand i)])
      else history)"
  by pat_completeness auto
termination
  by (relation "measure (\<lambda>(r, rand, currentPrice, i, price, history). 60 - i)") auto

text \<open>The value of the variable \<open>price\<close> after \<open>n\<close> iterations of the loop that starts
  from \<open>price0\<close>.\<close>

primrec price_after :: "rounding \<Rightarrow> (nat \<Rightarrow> real) \<Rightarrow> jsnum \<Rightarrow> jsnum \<Rightarrow> nat \<Rightarrow> jsnum" where
  "price_after r rand currentPrice price0 0 = price0"
| "price_after r rand currentPrice price0 (Suc n) =
     next_price r currentPrice (price_after r rand currentPrice price0 n) (rand n)"

definition generateSimulatedHistory ::
  "rounding \<Rightarrow> (nat \<Rightarrow> real) \<Rightarrow> jsnum \<Rightarrow> jsnum \<Rightarrow> jsnum list" where
  "generateSimulatedHistory r rand currentPrice change24h =
     history_loop r rand currentPrice 0
       (js_div r currentPrice (js_add r (Num 1) (js_div r change24h (Num 100)))) []"

text \<open>
  The price path in the words of the spec (section 4.1), on real numbers: from the
  back-solved starting price, each step adds the drift \<open>(currentPrice - price) / 60\<close> and
  the noise \<open>(rand - 0.5) * price * 0.02\<close> and floors the result at 95 percent of the
  price before the step.
\<close>

primrec spec_price_path :: "(nat \<Rightarrow> real) \<Rightarrow> real \<Rightarrow> real \<Rightarrow> nat \<Rightarrow> real" where
  "spec_price_path rand currentPrice price0 0 = price0"
| "spec_price_path rand currentPrice price0 (Suc n) =
     max (spec_price_path rand currentPrice price0 n
            + (currentPrice - spec_price_path rand currentPrice price0 n) / 60
            + (rand n - 0.5) * spec_price_path rand currentPrice price0 n * 0.02)
         (spec_price_path rand currentPrice price0 n * 0.95)"

section \<open>Signal generation\<close>

datatype bias = BULLISH | BEARISH | NEUTRAL

text \<open>
  The object \<open>{ funding, fmScore, markPx: markPrice, momentum, volume }\<close> that
  \<open>generateSignals\<close> passes to \<open>analyzeAsset\<close> as \<open>hyperData\<close>.
\<close>

record hyper_data =
  h_funding :: jsnum
  h_fmScore :: jsnum
  h_markPx :: jsnum
  h_momentum :: jsnum
  h_volume :: jsnum

text \<open>
  The scoring rules mutate \<open>score\<close>, \<open>signals\<close> and \<open>bias\<close>; each group of the source's
  \<open>if\<close> chains is a function on that state, in the order of the source.
\<close>

type_synonym scoring = "int \<times> string list \<times> bias"

text \<open>
  The service with Telegram notifications:
  \<^verbatim>\<open>
  if (rsi < 30) { score += 25; signals.push('RSI Oversold'); bias = 'BULLISH'; }
  else if (rsi > 70) { score -= 15; signals.push('RSI Overbought'); bias = 'BEARISH'; }
  else if (rsi > 55) { score += 15; signals.push('RSI Bullish'); bias = 'BULLISH'; }
  else if (rsi < 45) { score -= 10; signals.push('RSI Weak'); bias = 'BEARISH'; }
  else { score += 5; }
  \<close>
  \<open>signal_service.js\<close> has no final \<open>else\<close>.
\<close>

fun rsi_scoring_tg :: "jsnum \<Rightarrow> scoring \<Rightarrow> scoring" where
  "rsi_scoring_tg rsi (score, signals, bias) =
     (if js_lt rsi (Num 30) then (score + 25, signals @ [''RSI Oversold''], BULLISH)
      else if js_gt rsi (Num 70) then (score - 15, signals @ [''RSI Overbought''], BEARISH)
      else if js_gt rsi (Num 55) then (score + 15, signals @ [''RSI Bullish''], BULLISH)
      else if js_lt rsi (Num 45) then (score - 10, signals @ [''RSI Weak''], BEARISH)
      else (score + 5, signals, bias))"

fun rsi_scoring :: "jsnum \<Rightarrow> scoring \<Rightarrow> scoring" where
  "rsi_scoring rsi (score, signals, bias) =
     (if js_lt rsi (Num 30) then (score + 25, signals @ [''RSI Oversold''], BULLISH)
      else if js_gt rsi (Num 70) then (score - 15, signals @ [''RSI Overbought''], BEARISH)
      else if js_gt rsi (Num 55) then (score + 15, signals @ [''RSI Bullish''], BULLISH)
      else if js_lt rsi (Num 45) then (score - 10, signals @ [''RSI Weak''], BEARISH)
      else (score, signals, bias))"

text \<open>
  \<^verbatim>\<open>
  if (macd.bullish && macd.histogram > 0) { score += 20; signals.push('MACD Bullish'); }
  else if (macd.bullish) { score += 10; signals.push('MACD Above Signal'); }
  \<close>
\<close>

fun macd_scoring :: "macd_result \<Rightarrow> scoring \<Rightarrow> scoring" where
  "macd_scoring m (score, signals, bias) =
     (if bullish m \<and> js_gt (to_number (histogram m)) (Num 0)
      then (score + 20, signals @ [''MACD Bullish''], bias)
      else if bullish m then (score + 10, signals @ [''MACD Above Signal''], bias)
      else (score, signals, bias))"

text \<open>
  \<^verbatim>\<open>
  const aboveEMA = [ema9, ema21, ema50].filter(e => price > e).length;
  if (aboveEMA === 3) { score += 20; signals.push('Strong Uptrend'); bias = 'BULLISH'; }
  else if (aboveEMA === 2) { score += 10; signals.push('Moderate Uptrend'); bias = 'BULLISH'; }
  else if (aboveEMA === 0) { score -= 20; bias = 'BEARISH'; }
  \<close>
\<close>

fun ema_scoring :: "jsnum \<Rightarrow> jsnum option \<Rightarrow> jsnum option \<Rightarrow> jsnum option \<Rightarrow> scoring \<Rightarrow> scoring" where
  "ema_scoring price ema9 ema21 ema50 (score, signals, bias) =
     (let aboveEMA = length (filter (\<lambda>e. js_gt price (to_number e)) [ema9, ema21, ema50])
      in if aboveEMA = 3 then (score + 20, signals @ [''Strong Uptrend''], BULLISH)
         else if aboveEMA = 2 then (score + 10, signals @ [''Moderate Uptrend''], BULLISH)
         else if aboveEMA = 0 then (score - 20, signals, BEARISH)
         else (score, signals, bias))"

text \<open>
  \<open>signal_service.js\<close> only:
  \<^verbatim>\<open>
  if (bb.position < -1) { score += 15; signals.push('BB at Lower Band'); }
  else if (bb.position > 1) { score -= 10; signals.push('BB at Upper Band'); }
  \<close>
\<close>

fun bb_scoring :: "bollinger \<Rightarrow> scoring \<Rightarrow> scoring" where
  "bb_scoring b (score, signals, bias) =
     (if js_lt (position b) (Num (- 1)) then (score + 15, signals @ [''BB at Lower Band''], bias)
      else if js_gt (position b) (Num 1) then (score - 10, signals @ [''BB at Upper Band''], bias)
      else (score, signals, bias))"

text \<open>
  \<^verbatim>\<open>
  if (change24h > 5) { score += 10; signals.push('Strong Momentum'); }
  else if (change24h < -5) { score -= 10; signals.push('Weak Momentum'); }
  \<close>
\<close>

fun momentum_scoring :: "jsnum \<Rightarrow> scoring \<Rightarrow> scoring" where
  "momentum_scoring change24h (score, signals, bias) =
     (if js_gt change24h (Num 5) then (score + 10, signals @ [''Strong Momentum''], bias)
      else if js_lt change24h (Num (- 5)) then (score - 10, signals @ [''Weak Momentum''], bias)
      else (score, signals, bias))"

text \<open>
  \<^verbatim>\<open>
  if (hyperData.funding < -0.05) { score += 10; signals.push('Negative Funding'); }
  else if (hyperData.funding > 0.05) { score -= 10; signals.push('Positive Funding'); }
  \<close>
  In \<open>signal_service.js\<close> the labels are \<open>'Negative Funding (Shorts)'\<close> and
  \<open>'Positive Funding (Longs)'\<close>. The two thresholds are the literal \<open>0.05\<close>, rounded, and
  its negation.
\<close>

fun funding_scoring_tg :: "rounding \<Rightarrow> jsnum \<Rightarrow> scoring \<Rightarrow> scoring" where
  "funding_scoring_tg r funding (score, signals, bias) =
     (if js_lt funding (js_neg (Num (r 0.05)))
      then (score + 10, signals @ [''Negative Funding''], bias)
      else if js_gt funding (Num (r 0.05))
      then (score - 10, signals @ [''Positive Funding''], bias)
      else (score, signals, bias))"

fun funding_scoring :: "rounding \<Rightarrow> jsnum \<Rightarrow> scoring \<Rightarrow> scoring" where
  "funding_scoring r funding (score, signals, bias) =
     (if js_lt funding (js_neg (Num (r 0.05)))
      then (score + 10, signals @ [''Negative Funding (Shorts)''], bias)
      else if js_gt funding (Num (r 0.05))
      then (score - 10, signals @ [''Positive Funding (Longs)''], bias)
      else (score, signals, bias))"

text \<open>
  \<^verbatim>\<open>
  const volumeScore = hyperData.volume > 50000000 ? 15 : hyperData.volume > 20000000 ? 10 : 5;
  score += volumeScore;
  \<close>
\<close>

fun volume_scoring :: "jsnum \<Rightarrow> scoring \<Rightarrow> scoring" where
  "volume_scoring volume (score, signals, bias) =
     (let volumeScore = (if js_gt volume (Num 50000000) then 15
                         else if js_gt volume (Num 20000000) then 10 else 5)
      in (score + volumeScore, signals, bias))"

text \<open>
  The scoring of the service with Telegram notifications (\<open>part_000\<close> lines 142 to 167),
  from \<open>let score = 0; let signals = []; let bias = 'NEUTRAL';\<close> on, as a function of the
  indicator values it reads; and the scoring of \<open>signal_service.js\<close> (lines 481 to 515).
\<close>

definition score_asset_tg ::
  "rounding \<Rightarrow> jsnum \<Rightarrow> macd_result \<Rightarrow> jsnum \<Rightarrow> jsnum option \<Rightarrow> jsnum option \<Rightarrow> jsnum option \<Rightarrow>
   jsnum \<Rightarrow> jsnum \<Rightarrow> jsnum \<Rightarrow> scoring" where
  "score_asset_tg r rsi m price ema9 ema21 ema50 change24h funding volume =
     volume_scoring volume
       (funding_scoring_tg r funding
         (momentum_scoring change24h
           (ema_scoring price ema9 ema21 ema50
             (macd_scoring m
               (rsi_scoring_tg rsi (0, [], NEUTRAL))))))"

definition score_asset ::
  "rounding \<Rightarrow> jsnum \<Rightarrow> macd_result \<Rightarrow> jsnum \<Rightarrow> jsnum option \<Rightarrow> jsnum option \<Rightarrow> jsnum option \<Rightarrow>
   bollinger \<Rightarrow> jsnum \<Rightarrow> jsnum \<Rightarrow> jsnum \<Rightarrow> scoring" where
  "score_asset r rsi m price ema9 ema21 ema50 b change24h funding volume =
     volume_scoring volume
       (funding_scoring r funding
         (momentum_scoring change24h
           (bb_scoring b
             (ema_scoring price ema9 ema21 ema50
               (macd_scoring m
                 (rsi_scoring rsi (0, [], NEUTRAL)))))))"

text \<open>
  The object \<open>analyzeAsset\<close> returns. The score only ever has small integers added to
  0, so it is an \<open>int\<close>. The field \<open>macd\<close> of the source is \<open>macd_ind\<close> here (the result
  of \<open>calculateMACD\<close> has a field \<open>macd\<close> of its own). \<open>signal_service.js\<close> adds the
  field \<open>bb\<close>.
\<close>

record asset_signal =
  asset :: string
  score :: int
  signals :: "string list"
  bias :: bias
  price :: jsnum
  rsi :: jsnum
  macd_ind :: macd_result
  atr :: jsnum
  atrPercent :: jsnum
  ema9 :: "jsnum option"
  ema21 :: "jsnum option"
  ema50 :: "jsnum option"
  change24h :: jsnum
  funding :: jsnum
  volume :: jsnum
  fmScore :: jsnum

record asset_signal_bb = asset_signal +
  bb :: bollinger

text \<open>
  \<^verbatim>\<open>
  function analyzeAsset(asset, hyperData, luziaData) {
    const change24h = luziaData?.change24h || hyperData.momentum;
    const price = hyperData.markPx;
    const prices = generateSimulatedHistory(price, change24h);
    const highs = prices.map(p => p * 1.02);
    const lows = prices.map(p => p * 0.98);
    const rsi = calculateRSI(prices);
    const macd = calculateMACD(prices);
    const ema9 = calculateEMA(prices, 9);
    const ema21 = calculateEMA(prices, 21);
    const ema50 = calculateEMA(prices, 50);
    const atr = calculateATR(highs, lows, prices);
    ...
    return { asset, score, signals, bias, price, rsi, macd, atr,
             atrPercent: (atr / price) * 100, ema9, ema21, ema50, change24h,
             funding: hyperData.funding, volume: hyperData.volume,
             fmScore: hyperData.fmScore };
  }
  \<close>
  \<open>luziaData\<close> is the answer of the ticker service, or \<open>null\<close>; the model takes
  \<open>luziaData?.change24h\<close>, a Number or \<open>undefined\<close>. \<open>a || b\<close> is \<open>b\<close> when \<open>a\<close> is
  \<open>undefined\<close>, 0 or \<open>NaN\<close>.
\<close>

definition js_or :: "jsnum option \<Rightarrow> jsnum \<Rightarrow> jsnum" where
  "js_or a b = (case a of None \<Rightarrow> b | Some x \<Rightarrow> if x = Num 0 \<or> x = NaN then b else x)"

definition analyzeAsset_tg ::
  "rounding \<Rightarrow> (nat \<Rightarrow> real) \<Rightarrow> string \<Rightarrow> hyper_data \<Rightarrow> jsnum option \<Rightarrow> asset_signal" where
  "analyzeAsset_tg = (\<lambda>r rand asset hyperData luzia_change24h.
      let change24h = js_or luzia_change24h (h_momentum hyperData);
          price = h_markPx hyperData;
          prices = generateSimulatedHistory r rand price change24h;
          highs = map (\<lambda>p. js_mul r p (Num (r 1.02))) prices;
          lows = map (\<lambda>p. js_mul r p (Num (r 0.98))) prices;
          rsi = calculateRSI r prices 14;
          macd = calculateMACD r prices;
          ema9 = calculateEMA r prices 9;
          ema21 = calculateEMA r prices 21;
          ema50 = calculateEMA r prices 50;
          atr = calculateATR r highs lows prices 14;
          (score, signals, bias) =
            score_asset_tg r rsi macd price ema9 ema21 ema50 change24h
              (h_funding hyperData) (h_volume hyperData)
      in \<lparr>asset = asset, score = score, signals = signals, bias = bias, price = price,
          rsi = rsi, macd_ind = macd, atr = atr,
          atrPercent = js_mul r (js_div r atr price) (Num 100),
          ema9 = ema9, ema21 = ema21, ema50 = ema50, change24h = change24h,
          funding = h_funding hyperData, volume = h_volume hyperData,
          fmScore = h_fmScore hyperData\<rparr>)"

definition analyzeAsset ::
  "rounding \<Rightarrow> (nat \<Rightarrow> real) \<Rightarrow> string \<Rightarrow> hyper_data \<Rightarrow> jsnum option \<Rightarrow> asset_signal_bb" where
  "analyzeAsset = (\<lambda>r rand asset hyperData luzia_change24h.
      let change24h = js_or luzia_change24h (h_momentum hyperData);
          price = h_markPx hyperData;
          prices = generateSimulatedHistory r rand price change24h;
          highs = map (\<lambda>p. js_mul r p (Num (r 1.02))) prices;
          lows = map (\<lambda>p. js_mul r p (Num (r 0.98))) prices;
          rsi = calculateRSI r prices 14;
          macd = calculateMACD r prices;
          b = calculateBollingerBands r prices 20 (Num 2);
          atr = calculateATR r highs lows prices 14;
          ema9 = calculateEMA r prices 9;
          ema21 = calculateEMA r prices 21;
          ema50 = calculateEMA r prices 50;
          (score, signals, bias) =
            score_asset r rsi macd price ema9 ema21 ema50 b change24h
              (h_funding hyperData) (h_volume hyperData)
      in \<lparr>asset = asset, score = score, signals = signals, bias = bias, price = price,
          rsi = rsi, macd_ind = macd, atr = atr,
          atrPercent = js_mul r (js_div r atr price) (Num 100),
          ema9 = ema9, ema21 = ema21, ema50 = ema50, change24h = change24h,
          funding = h_funding hyperData, volume = h_volume hyperData,
          fmScore = h_fmScore hyperData, bb = b\<rparr>)"

section \<open>Risk management\<close>

text \<open>
  \<open>signal_service.js\<close> (lines 540 to 581):
  \<^verbatim>\<open>
  function calculatePositionSize(signal, accountBalance, riskProfile) {
    const { risk, rr_min, rr_target, max_leverage } = riskProfile;
    const riskAmount = accountBalance * risk;
    const stopDistance = signal.atrPercent > 0 ? signal.atrPercent * 1.5 : 5;
    const stopLossPrice = signal.bias === 'BULLISH'
      ? signal.price * (1 - stopDistance / 100)
      : signal.price * (1 + stopDistance / 100);
    const positionSize = riskAmount / (stopDistance / 100);
    const leverageNeeded = positionSize / accountBalance;
    const leverageToUse = Math.min(leverageNeeded, max_leverage);
    const rr1Price = signal.bias === 'BULLISH'
      ? signal.price * (1 + (stopDistance / 100) * rr_target)
      : signal.price * (1 - (stopDistance / 100) * rr_target);
    const rr2Price = ... (rr_target * 2) ...;
    const rr3Price = ... (rr_target * 3) ...;
    return { positionSize, leverageToUse, stopLossPrice, stopDistance, riskAmount,
             takeProfit1: { price: rr1Price, rr: rr_target },
             takeProfit2: { price: rr2Price, rr: rr_target * 2 },
             takeProfit3: { price: rr3Price, rr: rr_target * 3 } };
  }
  \<close>
\<close>

record risk_profile =
  risk :: jsnum
  rr_min :: jsnum
  rr_target :: jsnum
  max_leverage :: jsnum

text \<open>
  \<^verbatim>\<open>
  const RISK_PROFILES = {
    conservative: { risk: 0.01, rr_min: 2, rr_target: 3, max_leverage: 3 },
    moderate: { risk: 0.02, rr_min: 2, rr_target: 3, max_leverage: 5 },
    aggressive: { risk: 0.03, rr_min: 1.5, rr_target: 2, max_leverage: 10 },
  };
  \<close>
  The three \<open>risk\<close> literals are rounded, so a profile depends on the rounding.
\<close>

definition conservative :: "rounding \<Rightarrow> risk_profile" where
  "conservative r =
     \<lparr>risk = Num (r 0.01), rr_min = Num 2, rr_target = Num 3, max_leverage = Num 3\<rparr>"

definition moderate :: "rounding \<Rightarrow> risk_profile" where
  "moderate r =
     \<lparr>risk = Num (r 0.02), rr_min = Num 2, rr_target = Num 3, max_leverage = Num 5\<rparr>"

definition aggressive :: "rounding \<Rightarrow> risk_profile" where
  "aggressive r =
     \<lparr>risk = Num (r 0.03), rr_min = Num 1.5, rr_target = Num 2, max_leverage = Num 10\<rparr>"

record take_profit =
  tp_price :: jsnum
  rr :: jsnum

record risk_plan =
  positionSize :: jsnum
  leverageToUse :: jsnum
  stopLossPrice :: jsnum
  stopDistance :: jsnum
  riskAmount :: jsnum
  takeProfit1 :: take_profit
  takeProfit2 :: take_profit
  takeProfit3 :: take_profit

definition stop_distance :: "rounding \<Rightarrow> jsnum \<Rightarrow> jsnum" where
  "stop_distance = (\<lambda>r atrPercent.
     if js_gt atrPercent (Num 0) then js_mul r atrPercent (Num 1.5) else Num 5)"

definition rr_price :: "rounding \<Rightarrow> bias \<Rightarrow> jsnum \<Rightarrow> jsnum \<Rightarrow> jsnum \<Rightarrow> jsnum" where
  "rr_price = (\<lambda>r b price stopDistance ratio.
      if b = BULLISH
      then js_mul r price (js_add r (Num 1) (js_mul r (js_div r stopDistance (Num 100)) ratio))
      else js_mul r price (js_sub r (Num 1) (js_mul r (js_div r stopDistance (Num 100)) ratio)))"

definition calculatePositionSize ::
  "rounding \<Rightarrow> 'a asset_signal_scheme \<Rightarrow> jsnum \<Rightarrow> risk_profile \<Rightarrow> risk_plan" where
  "calculatePositionSize = (\<lambda>r signal accountBalance riskProfile.
      let riskAmount = js_mul r accountBalance (risk riskProfile);
          stopDistance = stop_distance r (atrPercent signal);
          stopLossPrice =
            (if bias signal = BULLISH
             then js_mul r (price signal) (js_sub r (Num 1) (js_div r stopDistance (Num 100)))
             else js_mul r (price signal) (js_add r (Num 1) (js_div r stopDistance (Num 100))));
          positionSize = js_div r riskAmount (js_div r stopDistance (Num 100));
          leverageNeeded = js_div r positionSize accountBalance;
          leverageToUse = js_min leverageNeeded (max_leverage riskProfile);
          rr1Price = rr_price r (bias signal) (price signal) stopDistance (rr_target riskProfile);
          rr2Price = rr_price r (bias signal) (price signal) stopDistance
                       (js_mul r (rr_target riskProfile) (Num 2));
          rr3Price = rr_price r (bias signal) (price signal) stopDistance
                       (js_mul r (rr_target riskProfile) (Num 3))
      in \<lparr>positionSize = positionSize, leverageToUse = leverageToUse,
          stopLossPrice = stopLossPrice, stopDistance = stopDistance,
          riskAmount = riskAmount,
          takeProfit1 = \<lparr>tp_price = rr1Price, rr = rr_target riskProfile\<rparr>,
          takeProfit2 = \<lparr>tp_price = rr2Price, rr = js_mul r (rr_target riskProfile) (Num 2)\<rparr>,
          takeProfit3 = \<lparr>tp_price = rr3Price, rr = js_mul r (rr_target riskProfile) (Num 3)\<rparr>\<rparr>)"

text \<open>
  The service with Telegram notifications (\<open>part_000\<close> lines 177 to 193), the simplified
  variant:
  \<^verbatim>\<open>
  const MAX_LEVERAGE = 10;
  function calculatePositionSize(signal, accountBalance = 10000, risk = 0.02) {
    const riskAmount = accountBalance * risk;
    const stopDistance = signal.atrPercent > 0 ? signal.atrPercent * 1.5 : 5;
    const stopLossPrice = signal.bias === 'BULLISH'
      ? signal.price * (1 - stopDistance / 100)
      : signal.price * (1 + stopDistance / 100);
    const positionSize = riskAmount / (stopDistance / 100);
    const leverageNeeded = positionSize / accountBalance;
    const leverageToUse = Math.min(leverageNeeded, MAX_LEVERAGE);
    return {
      positionSize, leverageToUse, stopLossPrice, stopDistance, riskAmount,
      takeProfit1: { rr: 3, price: signal.price * (1 + stopDistance / 100 * 3) },
      takeProfit2: { rr: 6, price: signal.price * (1 + stopDistance / 100 * 6) },
      takeProfit3: { rr: 9, price: signal.price * (1 + stopDistance / 100 * 9) }
    };
  }
  \<close>
\<close>

definition MAX_LEVERAGE :: jsnum where
  "MAX_LEVERAGE = Num 10"

definition tp_price_tg :: "rounding \<Rightarrow> jsnum \<Rightarrow> jsnum \<Rightarrow> jsnum \<Rightarrow> jsnum" where
  "tp_price_tg = (\<lambda>r price stopDistance ratio.
     js_mul r price (js_add r (Num 1) (js_mul r (js_div r stopDistance (Num 100)) ratio)))"

definition calculatePositionSize_tg ::
  "rounding \<Rightarrow> 'a asset_signal_scheme \<Rightarrow> jsnum \<Rightarrow> jsnum \<Rightarrow> risk_plan" where
  "calculatePositionSize_tg = (\<lambda>r signal accountBalance risk.
      let riskAmount = js_mul r accountBalance risk;
          stopDistance = stop_distance r (atrPercent signal);
          stopLossPrice =
            (if bias signal = BULLISH
             then js_mul r (price signal) (js_sub r (Num 1) (js_div r stopDistance (Num 100)))
             else js_mul r (price signal) (js_add r (Num 1) (js_div r stopDistance (Num 100))));
          positionSize = js_div r riskAmount (js_div r stopDistance (Num 100));
          leverageNeeded = js_div r positionSize accountBalance;
          leverageToUse = js_min leverageNeeded MAX_LEVERAGE
      in \<lparr>positionSize = positionSize, leverageToUse = leverageToUse,
          stopLossPrice = stopLossPrice, stopDistance = stopDistance,
          riskAmount = riskAmount,
          takeProfit1 = \<lparr>tp_price = tp_price_tg r (price signal) stopDistance (Num 3), rr = Num 3\<rparr>,
          takeProfit2 = \<lparr>tp_price = tp_price_tg r (price signal) stopDistance (Num 6), rr = Num 6\<rparr>,
          takeProfit3 = \<lparr>tp_price = tp_price_tg r (price signal) stopDistance (Num 9), rr = Num 9\<rparr>\<rparr>)"

section \<open>Main\<close>

text \<open>
  \<^verbatim>\<open>
  for (let i = 0; i < universe.length; i++) {
    const asset = universe[i].name;
    const funding = parseFloat(assetCtxs[i].funding || '0');
    const volume = parseFloat(assetCtxs[i].dayNtlVlm || '0') * 1000000;
    const prevPrice = parseFloat(assetCtxs[i].prevDayPx || '0');
    const markPrice = parseFloat(assetCtxs[i].markPx || '0');
    const momentum = prevPrice > 0 ? ((markPrice - prevPrice) / prevPrice) * 100 : 0;
    const fmScore = Math.abs(funding) * Math.abs(momentum / 100) * 10000;
    if (volume < 5000000) continue;
    const luziaData = await fetchLuziaTicker(`${asset}-USDT`);
    const analysis = analyzeAsset(asset,
      { funding, fmScore, markPx: markPrice, momentum, volume }, luziaData);
    analyses.push(analysis);
  }
  analyses.sort((a, b) => b.score - a.score);
  const topSignals = analyses.slice(0, topN);
  \<close>
  The loop is the same in both programs. Fetching and parsing are outside the model: a
  \<open>market_row\<close> is one asset of the universe with the four numbers \<open>parseFloat\<close> gave,
  \<open>luzia\<close> gives \<open>luziaData?.change24h\<close> for a ticker symbol. Every analysis draws 60
  numbers from \<open>Math.random()\<close>, so the next one reads \<open>rand\<close> from 60 on.
  \<open>Array.prototype.sort\<close> is stable, as \<open>sort_key\<close> is.
\<close>

record market_row =
  row_name :: string
  row_funding :: jsnum
  row_dayNtlVlm :: jsnum
  row_prevDayPx :: jsnum
  row_markPx :: jsnum

definition row_volume :: "rounding \<Rightarrow> market_row \<Rightarrow> jsnum" where
  "row_volume r row = js_mul r (row_dayNtlVlm row) (Num 1000000)"

definition row_hyper_data :: "rounding \<Rightarrow> market_row \<Rightarrow> hyper_data" where
  "row_hyper_data r row =
     (let funding = row_funding row;
          volume = row_volume r row;
          prevPrice = row_prevDayPx row;
          markPrice = row_markPx row;
          momentum = (if js_gt prevPrice (Num 0)
                      then js_mul r (js_div r (js_sub r markPrice prevPrice) prevPrice) (Num 100)
                      else Num 0);
          fmScore = js_mul r (js_mul r (js_abs funding) (js_abs (js_div r momentum (Num 100))))
                      (Num 10000)
      in \<lparr>h_funding = funding, h_fmScore = fmScore, h_markPx = markPrice,
          h_momentum = momentum, h_volume = volume\<rparr>)"

fun collect_analyses ::
  "(rounding \<Rightarrow> (nat \<Rightarrow> real) \<Rightarrow> string \<Rightarrow> hyper_data \<Rightarrow> jsnum option \<Rightarrow> 'a asset_signal_scheme) \<Rightarrow>
   rounding \<Rightarrow> (string \<Rightarrow> jsnum option) \<Rightarrow> (nat \<Rightarrow> real) \<Rightarrow> market_row list \<Rightarrow>
   'a asset_signal_scheme list" where
  "collect_analyses analyze r luzia rand [] = []"
| "collect_analyses analyze r luzia rand (row # rows) =
     (if js_lt (row_volume r row) (Num 5000000)
      then collect_analyses analyze r luzia rand rows
      else analyze r rand (row_name row) (row_hyper_data r row) (luzia (row_name row @ ''-USDT''))
             # collect_analyses analyze r luzia (\<lambda>i. rand (i + 60)) rows)"

definition top_signals :: "int \<Rightarrow> 'a asset_signal_scheme list \<Rightarrow> 'a asset_signal_scheme list" where
  "top_signals topN analyses = slice_to topN (sort_key (\<lambda>a. - score a) analyses)"

definition generateSignals_tg ::
  "rounding \<Rightarrow> (string \<Rightarrow> jsnum option) \<Rightarrow> (nat \<Rightarrow> real) \<Rightarrow> int \<Rightarrow> market_row list \<Rightarrow>
   asset_signal list" where
  "generateSignals_tg r luzia rand topN rows =
     top_signals topN (collect_analyses analyzeAsset_tg r luzia rand rows)"

definition generateSignals ::
  "rounding \<Rightarrow> (string \<Rightarrow> jsnum option) \<Rightarrow> (nat \<Rightarrow> real) \<Rightarrow> int \<Rightarrow> market_row list \<Rightarrow>
   asset_signal_bb list" where
  "generateSignals r luzia rand topN rows =
     top_signals topN (collect_analyses analyzeAsset r luzia rand rows)"

section \<open>Example inputs\<close>

text \<open>
  A signal for the examples: price 100 and an ATR of 2 percent, with a given bias. The
  other fields are not read by \<open>calculatePositionSize\<close>.
\<close>

definition sample_signal :: "bias \<Rightarrow> asset_signal" where
  "sample_signal b =
     \<lparr>asset = ''BTC'', score = 0, signals = [], bias = b, price = Num 100, rsi = Num 50,
      macd_ind = \<lparr>macd = Num 0, signal = Num 0, histogram = None, bullish = True\<rparr>,
      atr = Num 2, atrPercent = Num 2, ema9 = Some (Num 100), ema21 = Some (Num 100),
      ema50 = Some (Num 100), change24h = Num 0, funding = Num 0, volume = Num 5000000,
      fmScore = Num 0\<rparr>"

text \<open>A market row for the examples, with a given name and day volume (in millions).\<close>

definition sample_row :: "string \<Rightarrow> real \<Rightarrow> market_row" where
  "sample_row name vlm =
     \<lparr>row_name = name, row_funding = Num 0, row_dayNtlVlm = Num vlm, row_prevDayPx = Num 100,
      row_markPx = Num 125\<rparr>"

section \<open>Properties\<close>

subsection \<open>Arithmetic on finite numbers\<close>

lemma exact_Num [simp]: "Num (exact x) = Num x"
  by (simp add: exact_def)

lemma js_sub_Num [simp]: "js_sub r (Num a) (Num b) = Num (r (a - b))"
  by (simp add: js_sub_def)

lemma js_gt_Num [simp]: "js_gt (Num a) (Num b) = (b < a)"
  by (simp add: js_gt_def)

subsection \<open>Rounding to a double\<close>

lemma floor_log2_eq:
  assumes "0 < x" and "2 powr of_int k \<le> x" and "x < 2 powr (of_int k + 1)"
  shows "\<lfloor>log 2 x\<rfloor> = k"
  using assms
  by (simp add: floor_eq_iff le_log_iff log_less_iff)

lemma powr_neg_nat: "(2::real) powr (- real n) = 1 / 2 ^ n"
  by (simp add: powr_minus powr_realpow field_simps)

lemma powr_int_neg_nat: "(2::real) powr of_int (- int n) = 1 / 2 ^ n"
  using powr_neg_nat [of n] by simp

lemma exponent_ge: "- 1022 \<le> exponent x"
  by (simp add: exponent_def)

lemma exponent_minus [simp]: "exponent (- x) = exponent x"
  by (simp add: exponent_def)

lemma exponent_upper:
  assumes "x \<noteq> 0"
  shows "\<bar>x\<bar> < 2 powr (of_int (exponent x) + 1)"
proof -
  have "log 2 \<bar>x\<bar> < of_int \<lfloor>log 2 \<bar>x\<bar>\<rfloor> + 1"
    by linarith
  also have "\<dots> \<le> of_int (exponent x) + 1"
    by (simp add: exponent_def)
  finally show ?thesis
    using assms by (simp add: log_less_iff)
qed

lemma exponent_lower:
  assumes "2 powr (- 1022) \<le> \<bar>x\<bar>"
  shows "2 powr of_int (exponent x) \<le> \<bar>x\<bar>"
proof -
  have pos: "0 < \<bar>x\<bar>"
    using assms by (smt (verit) powr_gt_zero)
  then have "- 1022 \<le> log 2 \<bar>x\<bar>"
    using assms by (simp add: le_log_iff)
  then have "- 1022 \<le> \<lfloor>log 2 \<bar>x\<bar>\<rfloor>"
    by (simp add: le_floor_iff)
  then have "exponent x = \<lfloor>log 2 \<bar>x\<bar>\<rfloor>"
    by (simp add: exponent_def)
  then show ?thesis
    using pos by (simp add: le_log_iff [symmetric])
qed

lemma exponent_tiny:
  assumes "\<bar>x\<bar> < 2 powr (- 1022)" and "x \<noteq> 0"
  shows "exponent x = - 1022"
proof -
  have "log 2 \<bar>x\<bar> < - 1022"
    using assms by (simp add: log_less_iff)
  then have "\<lfloor>log 2 \<bar>x\<bar>\<rfloor> < - 1022"
    by (simp add: floor_less_iff)
  then show ?thesis
    by (simp add: exponent_def)
qed

lemma exponent_normal:
  assumes "exponent x \<noteq> - 1022" and "x \<noteq> 0"
  shows "2 powr (- 1022) \<le> \<bar>x\<bar>"
  using exponent_tiny [of x] assms by fastforce

lemma round_half_even_ge: "of_int (round_half_even q) \<ge> q - 1/2"
  unfolding round_half_even_def Let_def by (auto; linarith)

lemma round_half_even_le: "of_int (round_half_even q) \<le> q + 1/2"
  unfolding round_half_even_def Let_def by (auto; linarith)

lemma round_half_even_error: "\<bar>of_int (round_half_even q) - q\<bar> \<le> 1 / 2"
  using round_half_even_ge [of q] round_half_even_le [of q] by linarith

lemma round_half_even_of_int [simp]: "round_half_even (of_int k) = k"
  by (simp add: round_half_even_def)

lemma round_half_even_0 [simp]: "round_half_even 0 = 0"
  by (simp add: round_half_even_def)

lemma round_half_even_above:
  assumes "of_int k \<le> q"
  shows "k \<le> round_half_even q"
proof -
  have "k \<le> \<lfloor>q\<rfloor>" using assms by (simp add: le_floor_iff)
  then show ?thesis
    unfolding round_half_even_def Let_def by auto
qed

lemma round_half_even_below:
  assumes "q \<le> of_int k"
  shows "round_half_even q \<le> k"
proof (cases "q = of_int k")
  case True
  then show ?thesis by simp
next
  case False
  then have "q < of_int k" using assms by simp
  then have "\<lfloor>q\<rfloor> < k" by (simp add: floor_less_iff)
  then show ?thesis
    unfolding round_half_even_def Let_def by auto
qed

lemma floor_minus_cases:
  "\<lfloor>- q\<rfloor> = (if q = of_int \<lfloor>q\<rfloor> then - \<lfloor>q\<rfloor> else - \<lfloor>q\<rfloor> - 1)"
  by (auto simp: floor_eq_iff; linarith)

lemma round_half_even_minus: "round_half_even (- q) = - round_half_even q"
  unfolding round_half_even_def Let_def floor_minus_cases [of q]
  by (auto; linarith)

lemma double_0 [simp]: "double 0 = 0"
  by (simp add: double_def)

lemma double_minus: "double (- x) = - double x"
  by (simp add: double_def Let_def round_half_even_minus)

lemma double_nonneg:
  assumes "0 \<le> x"
  shows "0 \<le> double x"
proof -
  have "0 \<le> x / 2 powr of_int (exponent x - 52)"
    using assms by simp
  then have "0 \<le> round_half_even (x / 2 powr of_int (exponent x - 52))"
    using round_half_even_above [of 0] by simp
  then show ?thesis
    by (simp add: double_def Let_def)
qed

lemma double_nonpos:
  assumes "x \<le> 0"
  shows "double x \<le> 0"
  using double_nonneg [of "- x"] assms by (simp add: double_minus)

lemma keeps_sign_exact: "keeps_sign exact"
  by (simp add: keeps_sign_def exact_def)

lemma keeps_sign_double: "keeps_sign double"
  by (simp add: keeps_sign_def double_nonneg double_nonpos)


text \<open>The unit in the last place of the binade of \<open>x\<close>.\<close>

lemma double_ulp:
  "double x = of_int (round_half_even (x / 2 powr of_int (exponent x - 52))) *
     2 powr of_int (exponent x - 52)"
  by (simp add: double_def Let_def)

text \<open>The value of \<open>double\<close> on a number of a known binade.\<close>

lemma exponent_eq:
  assumes "2 powr of_int k \<le> \<bar>x\<bar>" and "\<bar>x\<bar> < 2 powr (of_int k + 1)" and "- 1022 \<le> k"
  shows "exponent x = k"
proof -
  have pos: "0 < \<bar>x\<bar>"
    using assms(1) by (smt (verit) powr_gt_zero)
  have "\<lfloor>log 2 \<bar>x\<bar>\<rfloor> = k"
    using pos assms(1,2) by (rule floor_log2_eq)
  then show ?thesis
    using assms(3) by (simp add: exponent_def)
qed

lemma double_small:
  assumes "1 / 2 ^ n \<le> \<bar>x\<bar>" and "\<bar>x\<bar> < 2 / 2 ^ n" and "n \<le> 1022"
  shows "double x = of_int (round_half_even (x * 2 ^ (n + 52))) / 2 ^ (n + 52)"
proof -
  have pos: "0 < \<bar>x\<bar>"
    using assms(1) by (smt (verit) divide_pos_pos zero_less_power zero_less_one)
  have "2 powr (1 - real n) = 2 powr 1 * (2::real) powr (- real n)"
    unfolding powr_add [symmetric] by simp
  then have "exponent x = - int n"
    using assms pos by (intro exponent_eq) (simp_all add: powr_neg_nat)
  moreover have "(2::real) powr of_int (- int n - 52) = 1 / 2 ^ (n + 52)"
    using powr_neg_nat [of "n + 52"] by (simp add: algebra_simps)
  ultimately show ?thesis
    using pos by (simp add: double_def Let_def)
qed

lemma double_big:
  assumes "2 ^ n \<le> \<bar>x\<bar>" and "\<bar>x\<bar> < 2 * 2 ^ n" and "n \<le> 52"
  shows "double x = of_int (round_half_even (x * 2 ^ (52 - n))) / 2 ^ (52 - n)"
proof -
  have pos: "0 < \<bar>x\<bar>"
    using assms(1) by (smt (verit) zero_less_power)
  have "2 powr (real n + 1) = 2 powr 1 * (2::real) powr (real n)"
    by (simp add: powr_add)
  then have "exponent x = int n"
    using assms(1,2) pos by (intro exponent_eq) (simp_all add: powr_realpow)
  moreover have "(2::real) powr of_int (int n - 52) = 1 / 2 ^ (52 - n)"
    using powr_neg_nat [of "52 - n"] assms(3) by (simp add: of_nat_diff algebra_simps)
  ultimately show ?thesis
    using pos by (simp add: double_def Let_def)
qed

lemma double_tiny:
  assumes "\<bar>x\<bar> < 1 / 2 ^ 1022"
  shows "double x = of_int (round_half_even (x * 2 ^ 1074)) / 2 ^ 1074"
proof (cases "x = 0")
  case True
  then show ?thesis by simp
next
  case False
  have "\<bar>x\<bar> < 2 powr (- 1022)"
    using assms powr_neg_nat [of 1022] by simp
  then have "exponent x = - 1022"
    using False by (rule exponent_tiny)
  then have e: "exponent x - 52 = - int 1074"
    by simp
  show ?thesis
    unfolding double_ulp [of x] e powr_int_neg_nat by simp
qed

lemma double_1: "double 1 = 1"
  by (subst double_big [where n = 0]) (simp_all add: round_half_even_def)

lemma double_2: "double 2 = 2"
  by (subst double_big [where n = 1]) (simp_all add: round_half_even_def)

lemma ulp_upper:
  assumes "x \<noteq> 0"
  shows "\<bar>x\<bar> / 2 powr of_int (exponent x - 52) < 2 ^ 53"
proof -
  have "\<bar>x\<bar> < 2 powr (of_int (exponent x) + 1)"
    using assms by (rule exponent_upper)
  also have "\<dots> = 2 powr 53 * 2 powr of_int (exponent x - 52)"
    unfolding powr_add [symmetric] by (simp add: algebra_simps)
  also have "(2::real) powr 53 = 2 ^ 53"
    using powr_realpow [of 2 53] by simp
  finally show ?thesis
    by (simp add: field_simps)
qed

lemma ulp_lower:
  assumes "2 powr (- 1022) \<le> \<bar>x\<bar>"
  shows "2 ^ 52 \<le> \<bar>x\<bar> / 2 powr of_int (exponent x - 52)"
proof -
  have "(2::real) powr 52 * 2 powr of_int (exponent x - 52) = 2 powr of_int (exponent x)"
    unfolding powr_add [symmetric] by simp
  also have "\<dots> \<le> \<bar>x\<bar>"
    using assms by (rule exponent_lower)
  finally have "(2::real) powr 52 * 2 powr of_int (exponent x - 52) \<le> \<bar>x\<bar>" .
  moreover have "(2::real) powr 52 = 2 ^ 52"
    using powr_realpow [of 2 52] by simp
  ultimately show ?thesis
    by (simp add: field_simps)
qed

lemma double_error:
  "\<bar>double x - x\<bar> \<le> max (\<bar>x\<bar> / 2 ^ 53) (1 / 2 ^ 1075)"
proof (cases "x = 0")
  case True
  then show ?thesis by simp
next
  case False
  define u :: real where "u = 2 powr of_int (exponent x - 52)"
  have u: "0 < u" by (simp add: u_def)
  have d: "double x = of_int (round_half_even (x / u)) * u"
    unfolding u_def by (rule double_ulp)
  have "double x - x = (of_int (round_half_even (x / u)) - x / u) * u"
    using u by (simp add: d field_simps)
  then have "\<bar>double x - x\<bar> = \<bar>of_int (round_half_even (x / u)) - x / u\<bar> * u"
    using u by (simp add: abs_mult)
  also have "\<dots> \<le> 1 / 2 * u"
    using u round_half_even_error [of "x / u"] by (intro mult_right_mono) simp_all
  finally have err: "\<bar>double x - x\<bar> \<le> u / 2" by simp
  show ?thesis
  proof (cases "2 powr (- 1022) \<le> \<bar>x\<bar>")
    case True
    then have "2 ^ 52 \<le> \<bar>x\<bar> / u"
      unfolding u_def by (rule ulp_lower)
    then have "u / 2 \<le> \<bar>x\<bar> / 2 ^ 53"
      using u by (simp add: field_simps)
    then show ?thesis using err by linarith
  next
    case False
    then have "exponent x = - 1022"
      using \<open>x \<noteq> 0\<close> by (intro exponent_tiny) simp_all
    then have "u = 1 / 2 ^ 1074"
      using powr_neg_nat [of 1074] by (simp add: u_def)
    then have "u / 2 = 1 / 2 ^ 1075" by simp
    then show ?thesis using err by linarith
  qed
qed

text \<open>Every double is a multiple of the smallest subnormal number.\<close>

lemma double_grid: "\<exists>j::int. double x = of_int j / 2 ^ 1074"
proof -
  define e where "e = exponent x - 52"
  have "- 1074 \<le> e"
    using exponent_ge [of x] by (simp add: e_def)
  then have "0 \<le> e + 1074" by simp
  then obtain n :: nat where "e + 1074 = int n"
    by (rule nonneg_int_cases)
  then have n: "e = int n - 1074" by simp
  have "(2::real) powr of_int e = 2 powr (real n) * 2 powr (- 1074)"
    unfolding powr_add [symmetric] by (simp add: n)
  also have "\<dots> = 2 ^ n / 2 ^ 1074"
    using powr_neg_nat [of 1074] by (simp add: powr_realpow)
  finally have "double x = of_int (round_half_even (x / 2 powr of_int e) * 2 ^ n) / 2 ^ 1074"
    unfolding e_def double_ulp [of x] by simp
  then show ?thesis by blast
qed

lemma double_least:
  assumes "1 / 2 ^ 1074 \<le> x"
  shows "0 < double x"
proof -
  define u :: real where "u = 2 powr of_int (exponent x - 52)"
  have u: "0 < u" by (simp add: u_def)
  have x: "0 < x"
    using assms by (smt (verit) divide_pos_pos zero_less_power zero_less_one)
  have "1 \<le> x / u"
  proof (cases "2 powr (- 1022) \<le> \<bar>x\<bar>")
    case True
    then have "2 ^ 52 \<le> \<bar>x\<bar> / u"
      unfolding u_def by (rule ulp_lower)
    moreover have "(1::real) \<le> 2 ^ 52" by simp
    ultimately show ?thesis using x by simp
  next
    case False
    then have "exponent x = - 1022"
      using x by (intro exponent_tiny) simp_all
    then have "u = 1 / 2 ^ 1074"
      using powr_neg_nat [of 1074] by (simp add: u_def)
    then show ?thesis using assms by simp
  qed
  then have "1 \<le> round_half_even (x / u)"
    using round_half_even_above [of 1] by simp
  then have "0 < real_of_int (round_half_even (x / u)) * u"
    using u by simp
  then show ?thesis
    unfolding u_def double_ulp [of x] .
qed

lemma double_gap:
  assumes "double y < double x"
  shows "0 < double (double x - double y)"
proof -
  obtain j where j: "double x = of_int j / 2 ^ 1074"
    using double_grid by blast
  obtain k where k: "double y = of_int k / 2 ^ 1074"
    using double_grid by blast
  have "k < j"
    using assms unfolding j k by (simp add: divide_less_cancel)
  then have "1 \<le> j - k" by simp
  then have "(1::real) \<le> of_int (j - k)"
    by (simp only: of_int_1_le_iff)
  then have "1 / 2 ^ 1074 \<le> double x - double y"
    unfolding j k by (simp add: field_simps)
  then show ?thesis
    by (rule double_least)
qed


text \<open>Rounding keeps a number in the closure of its binade, and never crosses a double.\<close>

lemma double_upper:
  assumes "0 < x"
  shows "double x \<le> 2 powr (of_int (exponent x) + 1)"
proof -
  define u :: real where "u = 2 powr of_int (exponent x - 52)"
  have u: "0 < u" by (simp add: u_def)
  have "\<bar>x\<bar> / u < 2 ^ 53"
    using assms unfolding u_def by (intro ulp_upper) simp
  then have "x / u \<le> of_int (2 ^ 53)"
    using assms by simp
  then have "round_half_even (x / u) \<le> 2 ^ 53"
    by (rule round_half_even_below)
  then have "real_of_int (round_half_even (x / u)) \<le> 2 ^ 53"
    by (metis of_int_le_iff of_int_numeral of_int_power)
  then have "real_of_int (round_half_even (x / u)) * u \<le> 2 ^ 53 * u"
    using u by (intro mult_right_mono) simp_all
  also have "(2::real) ^ 53 = 2 powr 53"
    using powr_realpow [of 2 53] by simp
  also have "2 powr 53 * u = 2 powr (of_int (exponent x) + 1)"
    unfolding u_def powr_add [symmetric] by (simp add: algebra_simps)
  finally show ?thesis
    unfolding u_def double_ulp [of x] .
qed

lemma double_lower:
  assumes "0 < x" and "2 powr (- 1022) \<le> x"
  shows "2 powr of_int (exponent x) \<le> double x"
proof -
  define u :: real where "u = 2 powr of_int (exponent x - 52)"
  have u: "0 < u" by (simp add: u_def)
  have "2 ^ 52 \<le> \<bar>x\<bar> / u"
    using assms unfolding u_def by (intro ulp_lower) simp
  then have "of_int (2 ^ 52) \<le> x / u"
    using assms by simp
  then have "2 ^ 52 \<le> round_half_even (x / u)"
    by (rule round_half_even_above)
  then have "2 ^ 52 \<le> real_of_int (round_half_even (x / u))"
    by (metis of_int_le_iff of_int_numeral of_int_power)
  then have le: "2 ^ 52 * u \<le> real_of_int (round_half_even (x / u)) * u"
    using u by (intro mult_right_mono) simp_all
  have "2 powr of_int (exponent x) = 2 powr 52 * u"
    unfolding u_def powr_add [symmetric] by (simp add: algebra_simps)
  also have "(2::real) powr 52 = 2 ^ 52"
    using powr_realpow [of 2 52] by simp
  also note le
  finally show ?thesis
    unfolding u_def double_ulp [of x] .
qed

lemma double_positive_arg:
  assumes "0 < double y"
  shows "0 < y"
  using assms double_nonpos [of y] by (cases "y \<le> 0") simp_all

lemma binade_step:
  assumes "k < l"
  shows "(2::real) powr (of_int k + 1) \<le> 2 powr of_int l"
  using assms by (intro powr_mono) simp_all

lemma double_above_pos:
  assumes "0 < double y" and "double y \<le> x"
  shows "double y \<le> double x"
proof -
  have y: "0 < y" using assms(1) by (rule double_positive_arg)
  have x: "0 < x" using assms by simp
  consider "exponent x = exponent y" | "exponent y < exponent x" | "exponent x < exponent y"
    by linarith
  then show ?thesis
  proof cases
    case 1
    define u :: real where "u = 2 powr of_int (exponent y - 52)"
    have u: "0 < u" by (simp add: u_def)
    have dy: "double y = of_int (round_half_even (y / u)) * u"
      unfolding u_def by (rule double_ulp)
    have dx: "double x = of_int (round_half_even (x / u)) * u"
      unfolding u_def 1 [symmetric] by (rule double_ulp)
    have "of_int (round_half_even (y / u)) \<le> x / u"
      using assms(2) u unfolding dy by (simp add: field_simps)
    then have "round_half_even (y / u) \<le> round_half_even (x / u)"
      by (rule round_half_even_above)
    then have "real_of_int (round_half_even (y / u)) \<le> real_of_int (round_half_even (x / u))"
      by simp
    then show ?thesis
      unfolding dx dy using u by (intro mult_right_mono) simp_all
  next
    case 2
    then have "exponent x \<noteq> - 1022"
      using exponent_ge [of y] by simp
    then have "2 powr (- 1022) \<le> x"
      using exponent_normal [of x] x by simp
    then have "2 powr of_int (exponent x) \<le> double x"
      using x by (intro double_lower)
    moreover have "double y \<le> 2 powr (of_int (exponent y) + 1)"
      using y by (rule double_upper)
    moreover have "(2::real) powr (of_int (exponent y) + 1) \<le> 2 powr of_int (exponent x)"
      using 2 by (rule binade_step)
    ultimately show ?thesis by linarith
  next
    case 3
    then have "exponent y \<noteq> - 1022"
      using exponent_ge [of x] by simp
    then have "2 powr (- 1022) \<le> y"
      using exponent_normal [of y] y by simp
    then have "2 powr of_int (exponent y) \<le> double y"
      using y by (intro double_lower)
    moreover have "\<bar>x\<bar> < 2 powr (of_int (exponent x) + 1)"
      using x by (intro exponent_upper) simp
    moreover have "(2::real) powr (of_int (exponent x) + 1) \<le> 2 powr of_int (exponent y)"
      using 3 by (rule binade_step)
    ultimately show ?thesis using assms(2) x by linarith
  qed
qed

lemma double_below_pos:
  assumes "0 < x" and "x \<le> double y"
  shows "double x \<le> double y"
proof -
  have "0 < double y" using assms by simp
  then have y: "0 < y" by (rule double_positive_arg)
  have x: "0 < x" by (rule assms(1))
  consider "exponent x = exponent y" | "exponent x < exponent y" | "exponent y < exponent x"
    by linarith
  then show ?thesis
  proof cases
    case 1
    define u :: real where "u = 2 powr of_int (exponent y - 52)"
    have u: "0 < u" by (simp add: u_def)
    have dy: "double y = of_int (round_half_even (y / u)) * u"
      unfolding u_def by (rule double_ulp)
    have dx: "double x = of_int (round_half_even (x / u)) * u"
      unfolding u_def 1 [symmetric] by (rule double_ulp)
    have "x / u \<le> of_int (round_half_even (y / u))"
      using assms(2) u unfolding dy by (simp add: field_simps)
    then have "round_half_even (x / u) \<le> round_half_even (y / u)"
      by (rule round_half_even_below)
    then have "real_of_int (round_half_even (x / u)) \<le> real_of_int (round_half_even (y / u))"
      by simp
    then show ?thesis
      unfolding dx dy using u by (intro mult_right_mono) simp_all
  next
    case 2
    then have "exponent y \<noteq> - 1022"
      using exponent_ge [of x] by simp
    then have "2 powr (- 1022) \<le> y"
      using exponent_normal [of y] y by simp
    then have "2 powr of_int (exponent y) \<le> double y"
      using y by (intro double_lower)
    moreover have "double x \<le> 2 powr (of_int (exponent x) + 1)"
      using x by (rule double_upper)
    moreover have "(2::real) powr (of_int (exponent x) + 1) \<le> 2 powr of_int (exponent y)"
      using 2 by (rule binade_step)
    ultimately show ?thesis by linarith
  next
    case 3
    define u :: real where "u = 2 powr of_int (exponent x - 52)"
    have u: "0 < u" by (simp add: u_def)
    have "exponent x \<noteq> - 1022"
      using 3 exponent_ge [of y] by simp
    then have "2 powr (- 1022) \<le> \<bar>x\<bar>"
      using exponent_normal [of x] x by simp
    then have "2 powr of_int (exponent x) \<le> \<bar>x\<bar>"
      by (rule exponent_lower)
    moreover have "double y \<le> 2 powr (of_int (exponent y) + 1)"
      using y by (rule double_upper)
    moreover have "(2::real) powr (of_int (exponent y) + 1) \<le> 2 powr of_int (exponent x)"
      using 3 by (rule binade_step)
    ultimately have eq: "x = 2 powr of_int (exponent x)"
      using assms(2) x by linarith
    have "2 powr 52 * u = 2 powr of_int (exponent x)"
      unfolding u_def powr_add [symmetric] by (simp add: algebra_simps)
    moreover have "(2::real) powr 52 = of_int (2 ^ 52)"
      using powr_realpow [of 2 52] by simp
    ultimately have "x / u = of_int (2 ^ 52)"
      using u eq by (simp add: field_simps)
    then have "double x = of_int (2 ^ 52) * u"
      unfolding double_ulp [of x] u_def [symmetric] by (simp only: round_half_even_of_int)
    also have "\<dots> = x"
      using \<open>x / u = of_int (2 ^ 52)\<close> u by (simp add: field_simps)
    finally show ?thesis using assms(2) by simp
  qed
qed

lemma double_above:
  assumes "double y \<le> x"
  shows "double y \<le> double x"
proof (cases "0 < double y")
  case True
  then show ?thesis using assms by (rule double_above_pos)
next
  case False
  show ?thesis
  proof (cases "0 \<le> x")
    case True
    then show ?thesis using double_nonneg [of x] False by simp
  next
    case neg: False
    have "double (- x) \<le> double (- y)"
      using neg assms by (intro double_below_pos) (simp_all add: double_minus)
    then show ?thesis by (simp add: double_minus)
  qed
qed

lemma double_below:
  assumes "x \<le> double y"
  shows "double x \<le> double y"
proof -
  have "double (- y) \<le> double (- x)"
    using assms by (intro double_above) (simp add: double_minus)
  then show ?thesis by (simp add: double_minus)
qed

lemma to_nearest_exact: "to_nearest exact"
proof -
  have "\<bar>exact x - x\<bar> \<le> max (\<bar>x\<bar> / 2 ^ 53) (1 / 2 ^ 1075)" for x
    by (simp add: exact_def le_max_iff_disj)
  moreover have "exact y \<le> x \<longrightarrow> exact y \<le> exact x" for x y
    by (simp add: exact_def)
  moreover have "x \<le> exact y \<longrightarrow> exact x \<le> exact y" for x y
    by (simp add: exact_def)
  moreover have "exact y < exact x \<longrightarrow> 0 < exact (exact x - exact y)" for x y
    by (simp add: exact_def)
  ultimately show ?thesis
    unfolding to_nearest_def using keeps_sign_exact by blast
qed

lemma to_nearest_double: "to_nearest double"
  unfolding to_nearest_def
  using keeps_sign_double double_error double_above double_below double_gap by blast

text \<open>What the proofs below use of a rounding to nearest.\<close>

lemma to_nearest_keeps_sign:
  assumes "to_nearest r"
  shows "r 0 = 0" and "0 \<le> x \<Longrightarrow> 0 \<le> r x" and "x \<le> 0 \<Longrightarrow> r x \<le> 0"
proof -
  have k: "keeps_sign r"
    using assms by (simp add: to_nearest_def)
  show "r 0 = 0"
    using k by (simp add: keeps_sign_def)
  then show "0 \<le> x \<Longrightarrow> 0 \<le> r x" and "x \<le> 0 \<Longrightarrow> r x \<le> 0"
    using k unfolding keeps_sign_def by (metis less_eq_real_def)+
qed

lemma to_nearest_error:
  assumes "to_nearest r"
  shows "\<bar>r x - x\<bar> \<le> max (\<bar>x\<bar> / 2 ^ 53) (1 / 2 ^ 1075)"
  using assms unfolding to_nearest_def by blast

lemma to_nearest_normal:
  assumes "to_nearest r" and "1 / 2 ^ 1022 \<le> \<bar>x\<bar>"
  shows "x - \<bar>x\<bar> / 2 ^ 53 \<le> r x" and "r x \<le> x + \<bar>x\<bar> / 2 ^ 53"
proof -
  have "(1 / 2 ^ 1022) / 2 ^ 53 \<le> \<bar>x\<bar> / 2 ^ 53"
    using assms(2) by (intro divide_right_mono) simp_all
  moreover have "(1 / 2 ^ 1022) / 2 ^ 53 = (1::real) / 2 ^ 1075"
    by simp
  ultimately have "max (\<bar>x\<bar> / 2 ^ 53) (1 / 2 ^ 1075) = \<bar>x\<bar> / 2 ^ 53"
    by linarith
  then have "\<bar>r x - x\<bar> \<le> \<bar>x\<bar> / 2 ^ 53"
    using to_nearest_error [OF assms(1), of x] by simp
  then show "x - \<bar>x\<bar> / 2 ^ 53 \<le> r x" and "r x \<le> x + \<bar>x\<bar> / 2 ^ 53"
    by linarith+
qed

lemma to_nearest_bounds:
  assumes "to_nearest r" and "0 \<le> z"
  shows "z * (1 - 1 / 2 ^ 53) - 1 / 2 ^ 1075 \<le> r z"
    and "r z \<le> z * (1 + 1 / 2 ^ 53) + 1 / 2 ^ 1075"
proof -
  have "max (\<bar>z\<bar> / 2 ^ 53) (1 / 2 ^ 1075) \<le> z / 2 ^ 53 + 1 / 2 ^ 1075"
    using assms(2) by simp
  then have "\<bar>r z - z\<bar> \<le> z / 2 ^ 53 + 1 / 2 ^ 1075"
    using to_nearest_error [OF assms(1), of z] by linarith
  then show "z * (1 - 1 / 2 ^ 53) - 1 / 2 ^ 1075 \<le> r z"
    and "r z \<le> z * (1 + 1 / 2 ^ 53) + 1 / 2 ^ 1075"
    by (simp_all add: algebra_simps abs_le_iff)
qed

lemma to_nearest_above:
  assumes "to_nearest r" and "r y \<le> x"
  shows "r y \<le> r x"
  using assms unfolding to_nearest_def by blast

lemma to_nearest_gap:
  assumes "to_nearest r" and "r y < r x"
  shows "0 < r (r x - r y)"
  using assms unfolding to_nearest_def by blast

lemma faithful_exact: "faithful exact"
  by (simp add: faithful_def exact_def)

text \<open>An underflow to 0 has relative error 1.\<close>

lemma double_not_faithful: "\<not> faithful double"
proof
  assume "faithful double"
  then have "\<bar>double (1 / 2 ^ 1076) - 1 / 2 ^ 1076\<bar> \<le> \<bar>1 / 2 ^ 1076\<bar> / 2 ^ 53"
    unfolding faithful_def by blast
  moreover have "double (1 / 2 ^ 1076) = 0"
    by (subst double_tiny) (simp_all add: round_half_even_def)
  ultimately show False by simp
qed

lemma faithful_bounds:
  assumes "faithful r"
  shows "x - \<bar>x\<bar> / 2 ^ 53 \<le> r x" and "r x \<le> x + \<bar>x\<bar> / 2 ^ 53"
proof -
  have "\<bar>r x - x\<bar> \<le> \<bar>x\<bar> / 2 ^ 53"
    using assms unfolding faithful_def by blast
  then show "x - \<bar>x\<bar> / 2 ^ 53 \<le> r x" and "r x \<le> x + \<bar>x\<bar> / 2 ^ 53"
    by linarith+
qed

lemma faithful_zero:
  assumes "faithful r"
  shows "r 0 = 0"
  using faithful_bounds [OF assms, of 0] by simp

lemma faithful_pos:
  assumes "faithful r" and "0 < x"
  shows "0 < r x"
proof -
  have "x / 2 ^ 53 < x" using assms(2) by (simp add: field_simps)
  then show ?thesis
    using faithful_bounds(1) [OF assms(1), of x] assms(2) by simp
qed

lemma faithful_neg:
  assumes "faithful r" and "x < 0"
  shows "r x < 0"
proof -
  have "- x / 2 ^ 53 < - x" using assms(2) by (simp add: field_simps)
  then show ?thesis
    using faithful_bounds(2) [OF assms(1), of x] assms(2) by simp
qed

lemma faithful_keeps_sign:
  assumes "faithful r"
  shows "keeps_sign r"
  using faithful_zero [OF assms] faithful_pos [OF assms] faithful_neg [OF assms]
  by (simp add: keeps_sign_def less_imp_le)

lemma faithful_literal_85:
  assumes "faithful r"
  shows "0 < r 0.85" and "r 0.85 \<le> 0.86"
  using faithful_bounds [OF assms, of "0.85"] by simp_all

lemma faithful_signal_below:
  assumes "faithful r" and "0 < v"
  shows "r (v * r 0.85) < v"
proof -
  note c = faithful_literal_85 [OF assms(1)]
  define z where "z = v * r 0.85"
  have "v * r 0.85 \<le> v * 0.86"
    using c assms(2) by (intro mult_left_mono) simp_all
  then have "z \<le> v * 0.86"
    by (simp only: z_def)
  moreover have "0 \<le> z"
    using c assms(2) by (simp add: z_def)
  then have "r z \<le> z + z / 2 ^ 53"
    using faithful_bounds(2) [OF assms(1), of z] by simp
  ultimately have "r z < v"
    using assms(2) by (simp; linarith)
  then show ?thesis
    by (simp only: z_def)
qed

lemma faithful_signal_above:
  assumes "faithful r" and "v < 0"
  shows "v < r (v * r 0.85)"
proof -
  note c = faithful_literal_85 [OF assms(1)]
  define z where "z = v * r 0.85"
  have "v * 0.86 \<le> v * r 0.85"
    using c assms(2) by (intro mult_left_mono_neg) simp_all
  then have "v * 0.86 \<le> z"
    by (simp only: z_def)
  moreover have "z \<le> 0"
    using c assms(2) by (simp add: z_def mult_le_0_iff)
  then have "z + z / 2 ^ 53 \<le> r z"
    using faithful_bounds(1) [OF assms(1), of z] by simp
  ultimately have "v < r z"
    using assms(2) by (simp; linarith)
  then show ?thesis
    by (simp only: z_def)
qed

subsection \<open>calculateEMA\<close>

lemma foldl_js_add_replicate:
  assumes "\<forall>k \<in> {1..j + n}. r (real k * c) = real k * c"
  shows "foldl (js_add r) (Num (real j * c)) (replicate n (Num c)) = Num (real (j + n) * c)"
  using assms
proof (induction n arbitrary: j)
  case 0
  then show ?case by simp
next
  case (Suc n)
  have "Suc j \<in> {1..j + Suc n}" by simp
  then have "r (real (Suc j) * c) = real (Suc j) * c"
    using Suc.prems by blast
  then have step: "js_add r (Num (real j * c)) (Num c) = Num (real (Suc j) * c)"
    by (simp add: algebra_simps)
  have "foldl (js_add r) (Num (real (Suc j) * c)) (replicate n (Num c)) = Num (real (Suc j + n) * c)"
    by (rule Suc.IH) (use Suc.prems in simp)
  with step show ?case by simp
qed

lemma js_sum_replicate:
  assumes "\<forall>k \<in> {1..n}. r (real k * c) = real k * c"
  shows "js_sum r (replicate n (Num c)) = Num (real n * c)"
  using foldl_js_add_replicate [of 0 n r c] assms by (simp add: js_sum_def)

lemma ema_loop_constant:
  assumes "\<forall>i \<in> set is. data ! i = Num c" and "r 0 = 0" and "r c = c"
  shows "foldl (\<lambda>ema i. js_add r (js_mul r (js_sub r (data ! i) ema) (Num m)) ema) (Num c) is = Num c"
  using assms by (induction "is") simp_all

lemma calculateEMA_short:
  assumes "data \<noteq> []" and "length data < period"
  shows "calculateEMA r data period = Some (last data)"
  using assms by (simp add: calculateEMA_def last_elem_def last_conv_nth)

lemma calculateEMA_replicate:
  assumes "0 < period" and "period \<le> n"
    and r0: "r 0 = 0" and rk: "\<forall>k \<in> {1..period}. r (real k * c) = real k * c"
  shows "calculateEMA r (replicate n (Num c)) period = Some (Num c)"
proof -
  have rc: "r c = c"
    using rk assms(1) by (auto dest: bspec [where x = 1])
  have "js_sum r (take period (replicate n (Num c))) = Num (real period * c)"
    using assms(2) rk by (simp add: js_sum_replicate min_def)
  then have seed: "js_div r (js_sum r (take period (replicate n (Num c)))) (Num (real period)) = Num c"
    using assms(1) rc by simp
  have mult: "js_div r (Num 2) (Num (real period + 1)) = Num (r (2 / (real period + 1)))"
    by (simp add: add_nonneg_eq_0_iff)
  have loop: "foldl (\<lambda>ema i. js_add r (js_mul r (js_sub r (replicate n (Num c) ! i) ema)
                 (Num (r (2 / (real period + 1))))) ema) (Num c) [period..<n] = Num c"
    by (rule ema_loop_constant) (simp_all add: r0 rc)
  show ?thesis
    using assms(1,2) unfolding calculateEMA_def Let_def seed mult
    by (simp add: loop)
qed

lemma double_tenth: "double (1 / 10) = 3602879701896397 / 36028797018963968"
  by (subst double_small [where n = 4]) (simp_all add: round_half_even_def)

lemma calculateEMA_double_tenth:
  "calculateEMA double (replicate 3 (Num (3602879701896397 / 36028797018963968))) 3 =
     Some (Num (7205759403792795 / 72057594037927936))"
proof -
  have a1: "double (3602879701896397 / 36028797018963968) = 3602879701896397 / 36028797018963968"
    by (subst double_small [where n = 4]) (simp_all add: round_half_even_def)
  have a2: "double (3602879701896397 / 18014398509481984) = 3602879701896397 / 18014398509481984"
    by (subst double_small [where n = 3]) (simp_all add: round_half_even_def)
  have a3: "double (10808639105689191 / 36028797018963968) = 1351079888211149 / 4503599627370496"
    by (subst double_small [where n = 2]) (simp_all add: round_half_even_def)
  have a4: "double (1351079888211149 / 13510798882111488) = 7205759403792795 / 72057594037927936"
    by (subst double_small [where n = 4]) (simp_all add: round_half_even_def)
  show ?thesis
    by (simp add: calculateEMA_def js_sum_def numeral_3_eq_3 a1 a2 a3 a4)
qed

text \<open>
  C8. On a non-empty sequence shorter than the period, \<open>calculateEMA\<close> returns the last
  data point. On a constant sequence of value \<open>c\<close>, for every period from 1 up to the
  length of the sequence, it returns \<open>c\<close> whenever the running sums \<open>c, 2c, ..., period * c\<close>
  of the seed are computed without rounding error, as they are in exact arithmetic.
\<close>

theorem C8_calculateEMA_sentinel_and_constant:
  "(data \<noteq> [] \<and> length data < period \<longrightarrow> calculateEMA r data period = Some (last data)) \<and>
   (0 < period \<and> period \<le> n \<and> r 0 = 0 \<and> (\<forall>k \<in> {1..period}. r (real k * c) = real k * c)
      \<longrightarrow> calculateEMA r (replicate n (Num c)) period = Some (Num c))"
  by (simp add: calculateEMA_short calculateEMA_replicate)

theorem C8_calculateEMA_witness:
  "calculateEMA double [Num 1, Num 2] 3 = Some (Num 2) \<and>
   calculateEMA double (replicate 3 (Num 1)) 2 = Some (Num 1) \<and>
   calculateEMA exact (replicate 40 (Num (1 / 10))) 12 = Some (Num (1 / 10))"
proof -
  have h: "\<forall>k \<in> {1..2::nat}. double (real k * 1) = real k * 1"
  proof
    fix k :: nat
    assume "k \<in> {1..2}"
    then consider "k = 1" | "k = 2" by force
    then show "double (real k * 1) = real k * 1"
      by cases (simp_all add: double_1 double_2)
  qed
  show ?thesis
    using h
      C8_calculateEMA_sentinel_and_constant [where data = "[Num 1, Num 2]" and period = 3 and r = double]
      C8_calculateEMA_sentinel_and_constant [where period = 2 and n = 3 and r = double and c = 1]
      C8_calculateEMA_sentinel_and_constant [where period = 12 and n = 40 and r = exact and c = "1 / 10"]
    by (simp add: exact_def)
qed

text \<open>
  With doubles the result is not always \<open>c\<close>: 0.1 is the double \<open>3602879701896397 / 2^55\<close>, the sum of
  three of them rounds up, and \<open>calculateEMA([0.1, 0.1, 0.1], 3)\<close> is
  \<open>0.10000000000000002\<close>, one unit in the last place above 0.1.
\<close>

theorem C8_calculateEMA_counterexample:
  "double (1 / 10) = 3602879701896397 / 36028797018963968 \<and>
   calculateEMA double (replicate 3 (Num (3602879701896397 / 36028797018963968))) 3
     \<noteq> Some (Num (3602879701896397 / 36028797018963968))"
  by (simp add: double_tenth calculateEMA_double_tenth)

lemma foldl_js_add_finite:
  "\<exists>s. foldl (js_add r) (Num a) (map Num xs) = Num s"
  by (induction xs arbitrary: a) simp_all

lemma js_sum_finite: "\<exists>s. js_sum r (map Num xs) = Num s"
  by (simp add: js_sum_def foldl_js_add_finite)

lemma ema_loop_finite:
  assumes "set is \<subseteq> {..<length xs}"
  shows "\<exists>e. foldl (\<lambda>ema i. js_add r (js_mul r (js_sub r (map Num xs ! i) ema) (Num m)) ema)
              (Num a) is = Num e"
  using assms by (induction "is" arbitrary: a) simp_all

lemma calculateEMA_finite:
  assumes "0 < period" and "period \<le> length xs"
  shows "\<exists>e. calculateEMA r (map Num xs) period = Some (Num e)"
proof -
  obtain s where s: "js_sum r (take period (map Num xs)) = Num s"
    using js_sum_finite [of r "take period xs"] by (auto simp: take_map)
  have mult: "js_div r (Num 2) (Num (real period + 1)) = Num (r (2 / (real period + 1)))"
    by (simp add: add_nonneg_eq_0_iff)
  have seed: "js_div r (Num s) (Num (real period)) = Num (r (s / real period))"
    using assms(1) by simp
  have "\<exists>e. foldl (\<lambda>ema i. js_add r (js_mul r (js_sub r (map Num xs ! i) ema)
                   (Num (r (2 / (real period + 1))))) ema) (Num (r (s / real period)))
                   [period..<length xs] = Num e"
    by (rule ema_loop_finite) auto
  then show ?thesis
    using assms by (simp add: calculateEMA_def Let_def s mult seed)
qed

subsection \<open>calculateMACD\<close>

lemma calculateMACD_short:
  assumes "length prices < 35"
  shows "calculateMACD r prices = \<lparr>macd = Num 0, signal = Num 0, histogram = None, bullish = True\<rparr>"
  using assms by (simp add: calculateMACD_def)

lemma calculateMACD_long:
  assumes "35 \<le> length prices"
  shows "macd (calculateMACD r prices) =
           js_sub r (to_number (calculateEMA r prices 12)) (to_number (calculateEMA r prices 26))"
    and "signal (calculateMACD r prices) = js_mul r (macd (calculateMACD r prices)) (Num (r 0.85))"
    and "histogram (calculateMACD r prices) =
           Some (js_sub r (macd (calculateMACD r prices)) (signal (calculateMACD r prices)))"
    and "bullish (calculateMACD r prices) =
           js_gt (macd (calculateMACD r prices)) (signal (calculateMACD r prices))"
  using assms by (simp_all add: calculateMACD_def Let_def)

lemma calculateMACD_finite:
  assumes "35 \<le> length xs"
  shows "\<exists>m. macd (calculateMACD r (map Num xs)) = Num m"
proof -
  obtain e12 where e12: "calculateEMA r (map Num xs) 12 = Some (Num e12)"
    using calculateEMA_finite [of 12 xs r] assms by auto
  obtain e26 where e26: "calculateEMA r (map Num xs) 26 = Some (Num e26)"
    using calculateEMA_finite [of 26 xs r] assms by auto
  show ?thesis
    using assms by (simp add: calculateMACD_long(1) e12 e26)
qed

text \<open>
  C6. For fewer than 35 prices \<open>calculateMACD\<close> returns \<open>{macd: 0, signal: 0, bullish: true}\<close>
  (an object with no \<open>histogram\<close>); otherwise the MACD line is EMA12 - EMA26, the signal
  line is the MACD line times 0.85 (the literal, rounded), the histogram is MACD line minus
  signal line, and
  \<open>bullish\<close> says whether the MACD line is greater than the signal line.
\<close>

theorem C6_calculateMACD:
  "(length prices < 35 \<longrightarrow>
      calculateMACD r prices = \<lparr>macd = Num 0, signal = Num 0, histogram = None, bullish = True\<rparr>) \<and>
   (35 \<le> length prices \<longrightarrow>
      macd (calculateMACD r prices) =
        js_sub r (to_number (calculateEMA r prices 12)) (to_number (calculateEMA r prices 26)) \<and>
      signal (calculateMACD r prices) = js_mul r (macd (calculateMACD r prices)) (Num (r 0.85)) \<and>
      histogram (calculateMACD r prices) =
        Some (js_sub r (macd (calculateMACD r prices)) (signal (calculateMACD r prices))) \<and>
      bullish (calculateMACD r prices) =
        js_gt (macd (calculateMACD r prices)) (signal (calculateMACD r prices)))"
  using calculateMACD_short calculateMACD_long by blast

theorem C6_calculateMACD_witness:
  "calculateMACD double [Num 1, Num 2] =
     \<lparr>macd = Num 0, signal = Num 0, histogram = None, bullish = True\<rparr> \<and>
   macd (calculateMACD exact (replicate 35 (Num 1))) = Num 0 \<and>
   signal (calculateMACD exact (replicate 35 (Num 1))) = Num 0 \<and>
   histogram (calculateMACD exact (replicate 35 (Num 1))) = Some (Num 0) \<and>
   bullish (calculateMACD exact (replicate 35 (Num 1))) = False"
  using C6_calculateMACD [of "[Num 1, Num 2]" double]
    C6_calculateMACD [of "replicate 35 (Num 1)" exact]
    calculateEMA_replicate [of 12 35 exact 1] calculateEMA_replicate [of 26 35 exact 1]
  by (simp add: exact_def)

subsection \<open>Scoring\<close>

text \<open>The scoring functions are the scoring of \<open>analyzeAsset\<close>, on the indicator values
  it returns.\<close>

lemma analyzeAsset_tg_scoring:
  "(score (analyzeAsset_tg r rand a h l), signals (analyzeAsset_tg r rand a h l),
    bias (analyzeAsset_tg r rand a h l)) =
   score_asset_tg r (rsi (analyzeAsset_tg r rand a h l)) (macd_ind (analyzeAsset_tg r rand a h l))
     (price (analyzeAsset_tg r rand a h l)) (ema9 (analyzeAsset_tg r rand a h l))
     (ema21 (analyzeAsset_tg r rand a h l)) (ema50 (analyzeAsset_tg r rand a h l))
     (change24h (analyzeAsset_tg r rand a h l)) (funding (analyzeAsset_tg r rand a h l))
     (volume (analyzeAsset_tg r rand a h l))"
  by (simp add: analyzeAsset_tg_def Let_def split: prod.splits)

lemma analyzeAsset_scoring:
  "(score (analyzeAsset r rand a h l), signals (analyzeAsset r rand a h l),
    bias (analyzeAsset r rand a h l)) =
   score_asset r (rsi (analyzeAsset r rand a h l)) (macd_ind (analyzeAsset r rand a h l))
     (price (analyzeAsset r rand a h l)) (ema9 (analyzeAsset r rand a h l))
     (ema21 (analyzeAsset r rand a h l)) (ema50 (analyzeAsset r rand a h l))
     (bb (analyzeAsset r rand a h l))
     (change24h (analyzeAsset r rand a h l)) (funding (analyzeAsset r rand a h l))
     (volume (analyzeAsset r rand a h l))"
  by (simp add: analyzeAsset_def Let_def split: prod.splits)

text \<open>The literal \<open>-0.08\<close> is below the threshold \<open>-0.05\<close> of the funding rule.\<close>

lemma funding_example:
  assumes "to_nearest r"
  shows "js_lt (js_neg (Num (r 0.08))) (js_neg (Num (r 0.05)))"
proof -
  have "r 0.05 \<le> 0.05 + \<bar>0.05\<bar> / 2 ^ 53"
    by (rule to_nearest_normal(2) [OF assms]) simp
  moreover have "0.08 - \<bar>0.08\<bar> / 2 ^ 53 \<le> r 0.08"
    by (rule to_nearest_normal(1) [OF assms]) simp
  ultimately have "r 0.05 < r 0.08"
    by simp
  then show ?thesis by simp
qed

lemma score_asset_tg_example:
  assumes "to_nearest r"
    and "js_gt p (to_number e9)" and "js_gt p (to_number e21)" and "js_gt p (to_number e50)"
    and "js_gt hist (Num 0)"
  shows "score_asset_tg r (Num 25)
           \<lparr>macd = m, signal = s, histogram = Some hist, bullish = True\<rparr>
           p e9 e21 e50 (Num 7) (js_neg (Num (r 0.08))) (Num 60000000) =
         (100,
          [''RSI Oversold'', ''MACD Bullish'', ''Strong Uptrend'', ''Strong Momentum'',
           ''Negative Funding''],
          BULLISH)"
  using assms(2-) funding_example [OF assms(1)] by (simp add: score_asset_tg_def)

lemma score_asset_example:
  assumes "to_nearest r"
    and "js_gt p (to_number e9)" and "js_gt p (to_number e21)" and "js_gt p (to_number e50)"
    and "js_gt hist (Num 0)"
  shows "score_asset r (Num 25)
           \<lparr>macd = m, signal = s, histogram = Some hist, bullish = True\<rparr>
           p e9 e21 e50 b (Num 7) (js_neg (Num (r 0.08))) (Num 60000000) =
         (if js_lt (position b) (Num (- 1))
          then (115,
                [''RSI Oversold'', ''MACD Bullish'', ''Strong Uptrend'', ''BB at Lower Band'',
                 ''Strong Momentum'', ''Negative Funding (Shorts)''],
                BULLISH)
          else if js_gt (position b) (Num 1)
          then (90,
                [''RSI Oversold'', ''MACD Bullish'', ''Strong Uptrend'', ''BB at Upper Band'',
                 ''Strong Momentum'', ''Negative Funding (Shorts)''],
                BULLISH)
          else (100,
                [''RSI Oversold'', ''MACD Bullish'', ''Strong Uptrend'', ''Strong Momentum'',
                 ''Negative Funding (Shorts)''],
                BULLISH))"
  using assms(2-) funding_example [OF assms(1)] by (simp add: score_asset_def)

text \<open>
  C3, as amended. Scored with RSI 25, a bullish MACD with a histogram above 0 (0.5 for
  instance), the price above EMA9, EMA21 and EMA50, a 24h change of 7, funding -0.08 and
  volume 60,000,000, an asset gets bias BULLISH in both programs. The service with
  Telegram notifications gives score 100 and the labels RSI Oversold, MACD Bullish,
  Strong Uptrend, Strong Momentum, Negative Funding, in this order.
  \<open>signal_service.js\<close> labels the funding rule Negative Funding (Shorts) and has a
  Bollinger rule between the trend and the momentum rules: with the Bollinger position
  from -1 to 1 (or \<open>NaN\<close>) it gives score 100 and the other four labels unchanged; below
  -1 it gives score 115 and the label BB at Lower Band, above 1 score 90 and the label
  BB at Upper Band.
\<close>

theorem C3_score_example:
  assumes "to_nearest r"
    and "js_gt p (to_number e9)" and "js_gt p (to_number e21)" and "js_gt p (to_number e50)"
    and "js_gt hist (Num 0)"
  shows "score_asset_tg r (Num 25)
           \<lparr>macd = m, signal = s, histogram = Some hist, bullish = True\<rparr>
           p e9 e21 e50 (Num 7) (js_neg (Num (r 0.08))) (Num 60000000) =
         (100,
          [''RSI Oversold'', ''MACD Bullish'', ''Strong Uptrend'', ''Strong Momentum'',
           ''Negative Funding''],
          BULLISH) \<and>
         score_asset r (Num 25)
           \<lparr>macd = m, signal = s, histogram = Some hist, bullish = True\<rparr>
           p e9 e21 e50 b (Num 7) (js_neg (Num (r 0.08))) (Num 60000000) =
         (if js_lt (position b) (Num (- 1))
          then (115,
                [''RSI Oversold'', ''MACD Bullish'', ''Strong Uptrend'', ''BB at Lower Band'',
                 ''Strong Momentum'', ''Negative Funding (Shorts)''],
                BULLISH)
          else if js_gt (position b) (Num 1)
          then (90,
                [''RSI Oversold'', ''MACD Bullish'', ''Strong Uptrend'', ''BB at Upper Band'',
                 ''Strong Momentum'', ''Negative Funding (Shorts)''],
                BULLISH)
          else (100,
                [''RSI Oversold'', ''MACD Bullish'', ''Strong Uptrend'', ''Strong Momentum'',
                 ''Negative Funding (Shorts)''],
                BULLISH))"
  using score_asset_tg_example [OF assms] score_asset_example [OF assms] by (rule conjI)

theorem C3_score_example_witness:
  "score_asset_tg double (Num 25)
     \<lparr>macd = Num 1, signal = Num 0.5, histogram = Some (Num 0.5), bullish = True\<rparr>
     (Num 100) (Some (Num 99)) (Some (Num 97)) (Some (Num 95)) (Num 7)
     (js_neg (Num (double 0.08))) (Num 60000000) =
   (100,
    [''RSI Oversold'', ''MACD Bullish'', ''Strong Uptrend'', ''Strong Momentum'',
     ''Negative Funding''],
    BULLISH) \<and>
   score_asset double (Num 25)
     \<lparr>macd = Num 1, signal = Num 0.5, histogram = Some (Num 0.5), bullish = True\<rparr>
     (Num 100) (Some (Num 99)) (Some (Num 97)) (Some (Num 95))
     \<lparr>upper = Num 110, middle = Num 100, lower = Num 90, position = Num 0\<rparr> (Num 7)
     (js_neg (Num (double 0.08))) (Num 60000000) =
   (100,
    [''RSI Oversold'', ''MACD Bullish'', ''Strong Uptrend'', ''Strong Momentum'',
     ''Negative Funding (Shorts)''],
    BULLISH)"
  using C3_score_example [OF to_nearest_double, where p = "Num 100" and ?e9.0 = "Some (Num 99)"
      and ?e21.0 = "Some (Num 97)" and ?e50.0 = "Some (Num 95)" and hist = "Num 0.5"
      and m = "Num 1" and s = "Num 0.5"
      and b = "\<lparr>upper = Num 110, middle = Num 100, lower = Num 90, position = Num 0\<rparr>"]
  by simp

text \<open>
  \<open>signal_service.js\<close> does not return the label list of the claim: at the same inputs
  its fifth label is Negative Funding (Shorts), and with the price below the lower
  Bollinger band (position -2) the score is 115, with a sixth label.
\<close>

theorem C3_score_example_counterexample:
  "score_asset double (Num 25)
     \<lparr>macd = Num 1, signal = Num 0.5, histogram = Some (Num 0.5), bullish = True\<rparr>
     (Num 100) (Some (Num 99)) (Some (Num 97)) (Some (Num 95))
     \<lparr>upper = Num 110, middle = Num 100, lower = Num 90, position = Num 0\<rparr> (Num 7)
     (js_neg (Num (double 0.08))) (Num 60000000) \<noteq>
   (100,
    [''RSI Oversold'', ''MACD Bullish'', ''Strong Uptrend'', ''Strong Momentum'',
     ''Negative Funding''],
    BULLISH) \<and>
   score_asset double (Num 25)
     \<lparr>macd = Num 1, signal = Num 0.5, histogram = Some (Num 0.5), bullish = True\<rparr>
     (Num 100) (Some (Num 99)) (Some (Num 97)) (Some (Num 95))
     \<lparr>upper = Num 110, middle = Num 105, lower = Num 101, position = Num (- 2)\<rparr> (Num 7)
     (js_neg (Num (double 0.08))) (Num 60000000) =
   (115,
    [''RSI Oversold'', ''MACD Bullish'', ''Strong Uptrend'', ''BB at Lower Band'',
     ''Strong Momentum'', ''Negative Funding (Shorts)''],
    BULLISH)"
  using score_asset_example [OF to_nearest_double, where p = "Num 100" and ?e9.0 = "Some (Num 99)"
      and ?e21.0 = "Some (Num 97)" and ?e50.0 = "Some (Num 95)" and hist = "Num 0.5"
      and m = "Num 1" and s = "Num 0.5"
      and b = "\<lparr>upper = Num 110, middle = Num 100, lower = Num 90, position = Num 0\<rparr>"]
    score_asset_example [OF to_nearest_double, where p = "Num 100" and ?e9.0 = "Some (Num 99)"
      and ?e21.0 = "Some (Num 97)" and ?e50.0 = "Some (Num 95)" and hist = "Num 0.5"
      and m = "Num 1" and s = "Num 0.5"
      and b = "\<lparr>upper = Num 110, middle = Num 105, lower = Num 101, position = Num (- 2)\<rparr>"]
  by simp

subsection \<open>Comparisons, minimum and maximum\<close>

lemma js_lt_irrefl [simp]: "\<not> js_lt a a"
  by (cases a) simp_all

lemma js_lt_NaN [simp]: "\<not> js_lt a NaN"
  by (cases a) simp_all

lemma js_min_not_gt: "\<not> js_gt (js_min a b) b"
  by (simp add: js_min_def js_gt_def)

lemma js_min_Num [simp]: "js_min (Num a) (Num b) = Num (min a b)"
  by (simp add: js_min_def min_def)

lemma js_max_Num [simp]: "js_max (Num a) (Num b) = Num (max a b)"
  by (simp add: js_max_def max_def)

subsection \<open>calculatePositionSize\<close>

lemma stop_distance_faithful:
  assumes "faithful r"
  shows "stop_distance r a = PosInf \<or> (\<exists>d. 0 < d \<and> stop_distance r a = Num d)"
proof (cases a)
  case (Num x)
  show ?thesis
  proof (cases "0 < x")
    case True
    then have "stop_distance r a = Num (r (x * 1.5))" and "0 < r (x * 1.5)"
      using Num faithful_pos [OF assms, of "x * 1.5"] by (simp_all add: stop_distance_def)
    then show ?thesis by blast
  next
    case False
    then have "stop_distance r a = Num 5"
      using Num by (simp add: stop_distance_def)
    then show ?thesis by simp
  qed
qed (simp_all add: stop_distance_def js_gt_def)

lemma leverage_faithful:
  assumes "faithful r" and "0 < b"
    and sd: "sd = PosInf \<or> (\<exists>d. 0 < d \<and> sd = Num d)"
  shows "\<exists>l. js_min (js_div r (js_div r (js_mul r (Num b) (Num k))
                 (js_div r sd (Num 100))) (Num b)) (Num m) = Num l \<and> l \<le> m"
proof -
  consider "sd = PosInf" | d where "0 < d" and "sd = Num d"
    using sd by blast
  then show ?thesis
  proof cases
    case 1
    then show ?thesis using assms(2) by simp
  next
    case 2
    then have "0 < r (d / 100)"
      using faithful_pos [OF assms(1), of "d / 100"] by simp
    then show ?thesis using assms(2) 2 by simp
  qed
qed

text \<open>
  C2. For an account balance above 0, both variants compute the risk amount as balance
  times risk fraction, the position size as \<open>riskAmount / (stopDistance / 100)\<close> and the
  leverage to use as the minimum of \<open>positionSize / accountBalance\<close> and the maximal
  leverage (the field of the risk profile, or the constant \<open>MAX_LEVERAGE\<close> of the simplified
  variant); the leverage to use is never greater than that maximum, and in exact
  arithmetic it is a finite number at most the maximum.
\<close>

theorem C2_position_size_and_leverage:
  assumes "0 < b"
  shows "riskAmount (calculatePositionSize r sig (Num b) prof) = js_mul r (Num b) (risk prof) \<and>
    positionSize (calculatePositionSize r sig (Num b) prof) =
      js_div r (riskAmount (calculatePositionSize r sig (Num b) prof))
        (js_div r (stopDistance (calculatePositionSize r sig (Num b) prof)) (Num 100)) \<and>
    leverageToUse (calculatePositionSize r sig (Num b) prof) =
      js_min (js_div r (positionSize (calculatePositionSize r sig (Num b) prof)) (Num b))
        (max_leverage prof) \<and>
    \<not> js_gt (leverageToUse (calculatePositionSize r sig (Num b) prof)) (max_leverage prof) \<and>
    riskAmount (calculatePositionSize_tg r sig (Num b) k) = js_mul r (Num b) k \<and>
    positionSize (calculatePositionSize_tg r sig (Num b) k) =
      js_div r (riskAmount (calculatePositionSize_tg r sig (Num b) k))
        (js_div r (stopDistance (calculatePositionSize_tg r sig (Num b) k)) (Num 100)) \<and>
    leverageToUse (calculatePositionSize_tg r sig (Num b) k) =
      js_min (js_div r (positionSize (calculatePositionSize_tg r sig (Num b) k)) (Num b))
        MAX_LEVERAGE \<and>
    \<not> js_gt (leverageToUse (calculatePositionSize_tg r sig (Num b) k)) MAX_LEVERAGE \<and>
    (faithful r \<and> risk prof = Num f \<and> max_leverage prof = Num m \<longrightarrow>
       (\<exists>l. leverageToUse (calculatePositionSize r sig (Num b) prof) = Num l \<and> l \<le> m)) \<and>
    (faithful r \<longrightarrow>
       (\<exists>l. leverageToUse (calculatePositionSize_tg r sig (Num b) (Num f)) = Num l \<and> l \<le> 10))"
proof -
  have 1: "\<exists>l. leverageToUse (calculatePositionSize r sig (Num b) prof) = Num l \<and> l \<le> m"
    if "faithful r" and "risk prof = Num f" and "max_leverage prof = Num m"
    using leverage_faithful [OF that(1) assms stop_distance_faithful [OF that(1), of "atrPercent sig"],
        where k = f and m = m]
      that(2,3)
    by (simp add: calculatePositionSize_def Let_def)
  have 2: "\<exists>l. leverageToUse (calculatePositionSize_tg r sig (Num b) (Num f)) = Num l \<and> l \<le> 10"
    if "faithful r"
    using leverage_faithful [OF that assms stop_distance_faithful [OF that, of "atrPercent sig"],
        where k = f and m = 10]
    by (simp add: calculatePositionSize_tg_def Let_def MAX_LEVERAGE_def)
  show ?thesis
    using 1 2 by (simp add: calculatePositionSize_def calculatePositionSize_tg_def Let_def js_min_not_gt)
qed


theorem C2_witness:
  "riskAmount (calculatePositionSize exact (sample_signal BULLISH) (Num 10000) (moderate exact)) = Num 200 \<and>
   positionSize (calculatePositionSize exact (sample_signal BULLISH) (Num 10000) (moderate exact)) = Num (20000 / 3) \<and>
   leverageToUse (calculatePositionSize exact (sample_signal BULLISH) (Num 10000) (moderate exact)) = Num (2 / 3) \<and>
   leverageToUse (calculatePositionSize exact ((sample_signal BULLISH)\<lparr>atrPercent := Num 0.1\<rparr>)
     (Num 10000) (moderate exact)) = Num 5 \<and>
   leverageToUse (calculatePositionSize_tg exact (sample_signal BEARISH) (Num 10000) (Num 0.02)) = Num (2 / 3) \<and>
   leverageToUse (calculatePositionSize_tg exact ((sample_signal BEARISH)\<lparr>atrPercent := Num 0.1\<rparr>)
     (Num 10000) (Num 0.02)) = Num 10"
  using faithful_exact
    C2_position_size_and_leverage [where b = 10000 and r = exact and sig = "sample_signal BULLISH"
      and prof = "moderate exact" and k = "Num 0.02" and f = "0.02" and m = 5]
  by (simp add: calculatePositionSize_def calculatePositionSize_tg_def sample_signal_def moderate_def
      Let_def stop_distance_def MAX_LEVERAGE_def)























subsection \<open>calculateRSI\<close>

lemma js_lt_PosInf [simp]: "\<not> js_lt PosInf b"
  by (cases b) simp_all

lemma js_lt_NegInf [simp]: "\<not> js_lt a NegInf"
  by (cases a) simp_all

lemma rising_change_not_negative:
  assumes "js_lt a b" and "\<forall>x. 0 < x \<longrightarrow> 0 \<le> r x"
  shows "\<not> js_lt (js_sub r b a) (Num 0)"
proof (cases a)
  case (Num x)
  then show ?thesis
    using assms by (cases b) (auto simp: js_sub_def not_less)
next
  case NegInf
  then show ?thesis
    using assms by (cases b) (simp_all add: js_sub_def)
qed (use assms in simp_all)

lemma price_changes_rising:
  assumes "sorted_wrt js_lt prices" and "\<forall>x. 0 < x \<longrightarrow> 0 \<le> r x"
    and "c \<in> set (price_changes r prices)"
  shows "\<not> js_lt c (Num 0)"
proof -
  obtain i where i: "1 \<le> i" "i < length prices" and c: "c = js_sub r (prices ! i) (prices ! (i - 1))"
    using assms(3) by (auto simp: price_changes_def)
  have "js_lt (prices ! (i - 1)) (prices ! i)"
    using assms(1) i by (simp add: sorted_wrt_iff_nth_less)
  then show ?thesis
    unfolding c using assms(2) by (rule rising_change_not_negative)
qed

lemma losses_rising:
  assumes "sorted_wrt js_lt prices" and "\<forall>x. 0 < x \<longrightarrow> 0 \<le> r x"
  shows "map (\<lambda>change. if js_lt change (Num 0) then js_abs change else Num 0) (price_changes r prices)
           = replicate (length prices - 1) (Num 0)"
proof -
  have "map (\<lambda>change. if js_lt change (Num 0) then js_abs change else Num 0) (price_changes r prices)
          = map (\<lambda>change. Num 0) (price_changes r prices)"
    using price_changes_rising [OF assms] by (intro map_cong) auto
  then show ?thesis
    by (simp add: map_replicate_const price_changes_def)
qed

lemma foldl_js_add_zeros:
  assumes "r 0 = 0"
  shows "foldl (js_add r) (Num 0) (replicate n (Num 0)) = Num 0"
  using assms by (induction n) simp_all

lemma wilder_zero:
  assumes "r 0 = 0" and "0 < period"
  shows "wilder r period (Num 0) (Num 0) = Num 0"
  using assms by (simp add: wilder_def)

lemma rsi_loop_loss_zero:
  assumes "r 0 = 0" and "0 < period" and "\<forall>i \<in> set is. losses ! i = Num 0"
  shows "snd (foldl (\<lambda>(avgGain, avgLoss) i.
                (wilder r period avgGain (gains ! i), wilder r period avgLoss (losses ! i)))
              (g, Num 0) is) = Num 0"
  using assms(3)
proof (induction "is" arbitrary: g)
  case Nil
  then show ?case by simp
next
  case (Cons i "is")
  then show ?case
    using assms(1,2) by (simp add: wilder_zero [of r period])
qed

lemma calculateRSI_short:
  assumes "length prices < period + 1"
  shows "calculateRSI r prices period = Num 50"
  using assms by (simp add: calculateRSI_def)

lemma calculateRSI_rising:
  assumes "0 < period" and "period + 1 \<le> length prices" and "sorted_wrt js_lt prices"
    and r0: "r 0 = 0" and rpos: "\<forall>x. 0 < x \<longrightarrow> 0 \<le> r x"
  shows "calculateRSI r prices period = Num 100"
proof -
  let ?gains = "map (\<lambda>change. if js_gt change (Num 0) then change else Num 0) (price_changes r prices)"
  let ?losses = "replicate (length prices - 1) (Num 0)"
  have losses: "map (\<lambda>change. if js_lt change (Num 0) then js_abs change else Num 0)
                  (price_changes r prices) = ?losses"
    using assms(3) rpos by (rule losses_rising)
  have len: "length ?gains = length prices - 1"
    by (simp add: price_changes_def)
  have "slice_last period ?losses = replicate period (Num 0)"
    using assms(1,2) by (simp add: slice_last_def)
  then have seed: "js_div r (js_sum r (slice_last period ?losses)) (Num (real period)) = Num 0"
    using assms(1) r0 by (simp add: js_sum_def foldl_js_add_zeros)
  have loop: "snd (foldl (\<lambda>(avgGain, avgLoss) i.
                (wilder r period avgGain (?gains ! i), wilder r period avgLoss (?losses ! i)))
              (g, Num 0) [period..<length ?gains]) = Num 0" for g
    using r0 assms(1) by (intro rsi_loop_loss_zero [where r = r]) (simp_all add: price_changes_def)
  show ?thesis
    using assms(2) loop
    unfolding calculateRSI_def Let_def losses seed
    by (simp add: split_beta)
qed

text \<open>
  C5. \<open>calculateRSI\<close> returns 50 for every price sequence shorter than \<open>period + 1\<close>,
  whatever its content; and for a period of at least 1 it returns 100 for every strictly
  increasing sequence of at least \<open>period + 1\<close> prices (for the default period 14: of
  length 15 or more): every loss is 0, so the average loss is 0 and the quotient by it is
  never computed. This holds for every rounding that keeps the sign, so for every
  faithful rounding, in exact arithmetic and with doubles.
\<close>

theorem C5_calculateRSI_sentinel_and_rising:
  "(length prices < period + 1 \<longrightarrow> calculateRSI r prices period = Num 50) \<and>
   (0 < period \<and> period + 1 \<le> length prices \<and> sorted_wrt js_lt prices \<and> keeps_sign r
      \<longrightarrow> calculateRSI r prices period = Num 100)"
proof -
  have "calculateRSI r prices period = Num 100"
    if "0 < period" and "period + 1 \<le> length prices" and "sorted_wrt js_lt prices"
      and f: "keeps_sign r"
  proof -
    have "r 0 = 0"
      using f by (simp add: keeps_sign_def)
    moreover have "\<forall>x. 0 < x \<longrightarrow> 0 \<le> r x"
      using f by (simp add: keeps_sign_def)
    ultimately show ?thesis
      using that(1-3) by (intro calculateRSI_rising)
  qed
  then show ?thesis
    using calculateRSI_short by blast
qed

theorem C5_calculateRSI_witness:
  "calculateRSI double [Num 3, Num 1] 14 = Num 50 \<and>
   calculateRSI double (map Num [1, 2, 3, 4, 5, 6, 7, 8, 9, 10, 11, 12, 13, 14, 15, 16]) 14 = Num 100"
proof -
  show ?thesis
    using keeps_sign_double
      C5_calculateRSI_sentinel_and_rising [of "[Num 3, Num 1]" 14 double]
      C5_calculateRSI_sentinel_and_rising
        [of "map Num [1, 2, 3, 4, 5, 6, 7, 8, 9, 10, 11, 12, 13, 14, 15, 16]" 14 double]
    by simp
qed

subsection \<open>calculateBollingerBands\<close>

lemma calculateBollingerBands_short:
  assumes "length prices < period"
  shows "calculateBollingerBands r prices period stdMult =
           \<lparr>upper = Num 0, middle = Num 0, lower = Num 0, position = Num 0\<rparr>"
  using assms by (simp add: calculateBollingerBands_def)

lemma calculateBollingerBands_constant:
  assumes "0 < period" and "period \<le> n"
    and r0: "r 0 = 0" and rk: "\<forall>k \<in> {1..period}. r (real k * c) = real k * c"
  shows "calculateBollingerBands r (replicate n (Num c)) period (Num m) =
           \<lparr>upper = Num c, middle = Num c, lower = Num c, position = NaN\<rparr>"
proof -
  have rc: "r c = c"
    using rk assms(1) by (auto dest: bspec [where x = 1])
  have slice: "slice_last period (replicate n (Num c)) = replicate period (Num c)"
    using assms(1,2) by (simp add: slice_last_def)
  have sma: "js_div r (js_sum r (replicate period (Num c))) (Num (real period)) = Num c"
    using assms(1) rk rc by (simp add: js_sum_replicate)
  have dev: "map (\<lambda>p. js_pow2 r (js_sub r p (Num c))) (replicate period (Num c))
               = replicate period (Num 0)"
    using r0 by (simp add: js_pow2_def)
  have std: "js_sqrt r (js_div r (js_sum r (replicate period (Num 0))) (Num (real period))) = Num 0"
    using assms(1) r0 by (simp add: js_sum_def foldl_js_add_zeros)
  have cur: "to_number (last_elem (replicate n (Num c))) = Num c"
    using assms(1,2) by (simp add: last_elem_def)
  show ?thesis
    using assms(1,2) r0 rc
    unfolding calculateBollingerBands_def Let_def slice sma dev std cur
    by simp
qed

text \<open>
  C7, as amended. \<open>calculateBollingerBands\<close> returns the all-zero object for every price
  sequence shorter than the period. For a constant sequence at least as long as the
  period (a period of at least 1) whose mean is computed without rounding error, the
  upper, middle and lower band all equal the constant price, and the position is \<open>0 / 0\<close>,
  that is \<open>NaN\<close>: the function has no fallback for a standard deviation of 0.
\<close>

theorem C7_calculateBollingerBands:
  "(length prices < period \<longrightarrow>
      calculateBollingerBands r prices period stdMult =
        \<lparr>upper = Num 0, middle = Num 0, lower = Num 0, position = Num 0\<rparr>) \<and>
   (0 < period \<and> period \<le> n \<and> r 0 = 0 \<and> (\<forall>k \<in> {1..period}. r (real k * c) = real k * c) \<longrightarrow>
      calculateBollingerBands r (replicate n (Num c)) period (Num m) =
        \<lparr>upper = Num c, middle = Num c, lower = Num c, position = NaN\<rparr>)"
  using calculateBollingerBands_short calculateBollingerBands_constant by blast

theorem C7_calculateBollingerBands_witness:
  "calculateBollingerBands double (replicate 19 (Num 7)) 20 (Num 2) =
     \<lparr>upper = Num 0, middle = Num 0, lower = Num 0, position = Num 0\<rparr> \<and>
   calculateBollingerBands exact (replicate 25 (Num 7)) 20 (Num 2) =
     \<lparr>upper = Num 7, middle = Num 7, lower = Num 7, position = NaN\<rparr>"
  using C7_calculateBollingerBands [where prices = "replicate 19 (Num 7)" and period = 20 and r = double
      and stdMult = "Num 2"]
    C7_calculateBollingerBands [where period = 20 and r = exact and n = 25 and c = 7 and m = 2]
  by (simp add: exact_def)

text \<open>
  For twenty prices of 1 and the default period 20 the position is \<open>NaN\<close>, not 0; so it is
  with the rounding of doubles, shown here for two prices and period 2.
\<close>

theorem C7_calculateBollingerBands_counterexample:
  "position (calculateBollingerBands exact (replicate 20 (Num 1)) 20 (Num 2)) = NaN \<and>
   position (calculateBollingerBands exact (replicate 20 (Num 1)) 20 (Num 2)) \<noteq> Num 0 \<and>
   position (calculateBollingerBands double [Num 1, Num 1] 2 (Num 2)) = NaN"
proof -
  have h: "\<forall>k \<in> {1..2::nat}. double (real k * 1) = real k * 1"
  proof
    fix k :: nat
    assume "k \<in> {1..2}"
    then consider "k = 1" | "k = 2" by force
    then show "double (real k * 1) = real k * 1"
      by cases (simp_all add: double_1 double_2)
  qed
  have "calculateBollingerBands double (replicate 2 (Num 1)) 2 (Num 2) =
          \<lparr>upper = Num 1, middle = Num 1, lower = Num 1, position = NaN\<rparr>"
    using h by (intro calculateBollingerBands_constant) simp_all
  moreover have "replicate 2 (Num 1) = [Num 1, Num 1]"
    by (simp add: numeral_2_eq_2)
  moreover have "calculateBollingerBands exact (replicate 20 (Num 1)) 20 (Num 2) =
          \<lparr>upper = Num 1, middle = Num 1, lower = Num 1, position = NaN\<rparr>"
    by (intro calculateBollingerBands_constant) (simp_all add: exact_def)
  ultimately show ?thesis by simp
qed

subsection \<open>generateSimulatedHistory\<close>

declare history_loop.simps [simp del]

lemma history_loop_unfold:
  assumes "i \<le> 60"
  shows "history_loop r rand cp i (price_after r rand cp p0 i) h =
           h @ concat (map (\<lambda>j. [price_after r rand cp p0 j, price_after r rand cp p0 (Suc j)]) [i..<60])"
  using assms
proof (induction "60 - i" arbitrary: i h)
  case 0
  then have "i = 60" by simp
  then show ?case
    by (simp add: history_loop.simps [of r rand cp 60])
next
  case (Suc n)
  then have lt: "i < 60" by simp
  have "history_loop r rand cp i (price_after r rand cp p0 i) h =
          history_loop r rand cp (Suc i) (price_after r rand cp p0 (Suc i))
            (h @ [price_after r rand cp p0 i, price_after r rand cp p0 (Suc i)])"
    using lt by (subst history_loop.simps) simp
  also have "\<dots> = (h @ [price_after r rand cp p0 i, price_after r rand cp p0 (Suc i)]) @
      concat (map (\<lambda>j. [price_after r rand cp p0 j, price_after r rand cp p0 (Suc j)]) [Suc i..<60])"
    using Suc.hyps(2) lt by (intro Suc.hyps(1)) simp_all
  finally show ?case
    using lt by (simp add: upt_conv_Cons)
qed

lemma generateSimulatedHistory_eq:
  "generateSimulatedHistory r rand cp ch =
     concat (map (\<lambda>j. [price_after r rand cp (js_div r cp (js_add r (Num 1) (js_div r ch (Num 100)))) j,
                        price_after r rand cp (js_div r cp (js_add r (Num 1) (js_div r ch (Num 100)))) (Suc j)])
               [0..<60])"
  using history_loop_unfold [of 0 r rand cp _ "[]"]
  by (simp add: generateSimulatedHistory_def)

lemma length_concat_pairs: "length (concat (map (\<lambda>j. [f j, g j]) [0..<n])) = 2 * n"
  by (induction n) simp_all

lemma nth_concat_pairs:
  assumes "i < n"
  shows "concat (map (\<lambda>j. [f j, g j]) [0..<n]) ! (2 * i) = f i"
    and "concat (map (\<lambda>j. [f j, g j]) [0..<n]) ! (2 * i + 1) = g i"
  using assms
proof (induction n)
  case 0
  case 1 then show ?case by simp
  case 2 then show ?case by simp
next
  case (Suc n)
  case 1
  then show ?case
    using Suc.IH(1) by (cases "i < n") (auto simp: nth_append length_concat_pairs less_Suc_eq)
  case 2
  then show ?case
    using Suc.IH(2) by (cases "i < n") (auto simp: nth_append length_concat_pairs less_Suc_eq)
qed

lemma generateSimulatedHistory_length: "length (generateSimulatedHistory r rand cp ch) = 120"
  by (simp add: generateSimulatedHistory_eq length_concat_pairs)

lemma generateSimulatedHistory_nth:
  assumes "i < 60"
  shows "generateSimulatedHistory r rand cp ch ! (2 * i) =
           price_after r rand cp (js_div r cp (js_add r (Num 1) (js_div r ch (Num 100)))) i"
    and "generateSimulatedHistory r rand cp ch ! (2 * i + 1) =
           price_after r rand cp (js_div r cp (js_add r (Num 1) (js_div r ch (Num 100)))) (Suc i)"
  using assms by (simp_all only: generateSimulatedHistory_eq nth_concat_pairs)

lemma next_price_exact:
  "next_price exact (Num cp) (Num p) u =
     Num (max (p + (cp - p) / 60 + (u - 0.5) * p * 0.02) (p * 0.95))"
  by (simp add: next_price_def Let_def)

lemma price_after_exact:
  "price_after exact rand (Num cp) (Num p0) n = Num (spec_price_path rand cp p0 n)"
  by (induction n) (simp_all add: next_price_exact)

lemma spec_price_path_pos:
  assumes "0 < p0"
  shows "0 < spec_price_path rand cp p0 n"
  using assms by (induction n) (simp_all add: less_max_iff_disj)

lemma start_price_exact:
  assumes "- 100 < ch"
  shows "js_div exact (Num cp) (js_add exact (Num 1) (js_div exact (Num ch) (Num 100))) =
           Num (cp / (1 + ch / 100))"
  using assms by simp

lemma noise_bound:
  assumes "0 \<le> u" and "u < 1" and "0 < (p::real)"
  shows "\<bar>(u - 0.5) * p * 0.02\<bar> \<le> p / 100"
proof -
  have "\<bar>u - 0.5\<bar> \<le> 1 / 2" unfolding abs_le_iff using assms(1,2) by simp
  then have "\<bar>u - 0.5\<bar> * p \<le> 1 / 2 * p"
    using assms(3) by (intro mult_right_mono) simp_all
  then show ?thesis
    using assms(3) by (simp add: abs_mult)
qed


text \<open>
  C4, as amended. For every rounding, noise sequence and input, \<open>generateSimulatedHistory\<close>
  returns exactly 120 points, the first one the back-solved starting price: each of the
  60 iterations appends the price before the step,
  advances the price and appends the advanced price, so that the sequence is
  \<open>p0, p1, p1, p2, ..., p59, p59, p60\<close>. For a current price above 0, a change above -100
  percent and noise numbers in [0, 1), in exact arithmetic, the prices are those of the
  spec's path: every price is positive, the noise is within 1 percent of the price, and
  the advanced price is at least 95 percent of the price before the step.
\<close>

theorem C4_generateSimulatedHistory:
  assumes "0 < cp" and "- 100 < ch" and "\<forall>i. 0 \<le> rand i \<and> rand i < 1"
  shows "length (generateSimulatedHistory r rand c h) = 120 \<and>
    generateSimulatedHistory r rand c h ! 0 =
      js_div r c (js_add r (Num 1) (js_div r h (Num 100))) \<and>
    (\<forall>i<60.
       generateSimulatedHistory r rand c h ! (2 * i + 1) =
         next_price r c (generateSimulatedHistory r rand c h ! (2 * i)) (rand i) \<and>
       (i < 59 \<longrightarrow> generateSimulatedHistory r rand c h ! (2 * i + 2) =
          generateSimulatedHistory r rand c h ! (2 * i + 1))) \<and>
    (\<forall>i<60.
       generateSimulatedHistory exact rand (Num cp) (Num ch) ! (2 * i) =
         Num (spec_price_path rand cp (cp / (1 + ch / 100)) i) \<and>
       generateSimulatedHistory exact rand (Num cp) (Num ch) ! (2 * i + 1) =
         Num (spec_price_path rand cp (cp / (1 + ch / 100)) (Suc i)) \<and>
       0 < spec_price_path rand cp (cp / (1 + ch / 100)) i \<and>
       \<bar>(rand i - 0.5) * spec_price_path rand cp (cp / (1 + ch / 100)) i * 0.02\<bar>
         \<le> spec_price_path rand cp (cp / (1 + ch / 100)) i / 100 \<and>
       spec_price_path rand cp (cp / (1 + ch / 100)) i * 0.95
         \<le> spec_price_path rand cp (cp / (1 + ch / 100)) (Suc i))"
proof -
  let ?p0 = "cp / (1 + ch / 100)"
  have p0: "0 < ?p0"
    using assms(1,2) by simp
  have pos: "0 < spec_price_path rand cp ?p0 i" for i
    using p0 by (rule spec_price_path_pos)
  have noise: "\<bar>(rand i - 0.5) * spec_price_path rand cp ?p0 i * 0.02\<bar>
                 \<le> spec_price_path rand cp ?p0 i / 100" for i
    using assms(3) pos by (intro noise_bound) auto
  have exact_nth: "generateSimulatedHistory exact rand (Num cp) (Num ch) ! (2 * i) =
        Num (spec_price_path rand cp ?p0 i) \<and>
      generateSimulatedHistory exact rand (Num cp) (Num ch) ! (2 * i + 1) =
        Num (spec_price_path rand cp ?p0 (Suc i))" if "i < 60" for i
    using that assms(2)
    by (simp only: generateSimulatedHistory_nth start_price_exact price_after_exact simp_thms)
  have step: "generateSimulatedHistory r rand c h ! (2 * i + 1) =
         next_price r c (generateSimulatedHistory r rand c h ! (2 * i)) (rand i) \<and>
       (i < 59 \<longrightarrow> generateSimulatedHistory r rand c h ! (2 * i + 2) =
          generateSimulatedHistory r rand c h ! (2 * i + 1))" if "i < 60" for i
  proof -
    have "2 * i + 2 = 2 * Suc i" by simp
    then show ?thesis
      using that generateSimulatedHistory_nth [of i r rand c h]
        generateSimulatedHistory_nth(1) [of "Suc i" r rand c h]
      by simp
  qed
  have start: "generateSimulatedHistory r rand c h ! 0 =
      js_div r c (js_add r (Num 1) (js_div r h (Num 100)))"
    using generateSimulatedHistory_nth(1) [of 0 r rand c h] by simp
  show ?thesis
    using pos noise exact_nth step start
    by (simp add: generateSimulatedHistory_length)
qed


theorem C4_generateSimulatedHistory_witness:
  "length (generateSimulatedHistory double (\<lambda>i. 1 / 2) (Num 100) (Num 25)) = 120 \<and>
   generateSimulatedHistory exact (\<lambda>i. 1 / 2) (Num 100) (Num 25) ! 2 = Num (241 / 3) \<and>
   generateSimulatedHistory exact (\<lambda>i. 1 / 2) (Num 100) (Num 25) ! 3 = Num (14519 / 180)"
proof -
  have p: "(0::real) < 100" "- 100 < (25::real)" "\<forall>i::nat. 0 \<le> (1 / 2::real) \<and> (1 / 2::real) < 1"
    by simp_all
  note t = C4_generateSimulatedHistory [OF p]
  have one: "1 < (60::nat)" by simp
  note t1 = t [where r = exact and c = "Num 100" and h = "Num 25",
      THEN conjunct2, THEN conjunct2, THEN conjunct2, rule_format, OF one]
  have "length (generateSimulatedHistory double (\<lambda>i. 1 / 2) (Num 100) (Num 25)) = 120"
    using t [where r = double and c = "Num 100" and h = "Num 25"] by simp
  then show ?thesis
    using t1 by (simp add: numeral_3_eq_3)
qed

text \<open>
  A step does not append the current price twice: for a current price of 100, a change of
  25 percent and noise numbers 0.5 (no noise), the first two points are 80 and 80.33.
\<close>

theorem C4_generateSimulatedHistory_counterexample:
  "generateSimulatedHistory exact (\<lambda>i. 1 / 2) (Num 100) (Num 25) ! 0 = Num 80 \<and>
   generateSimulatedHistory exact (\<lambda>i. 1 / 2) (Num 100) (Num 25) ! 1 = Num (241 / 3) \<and>
   generateSimulatedHistory exact (\<lambda>i. 1 / 2) (Num 100) (Num 25) ! 1 \<noteq>
     generateSimulatedHistory exact (\<lambda>i. 1 / 2) (Num 100) (Num 25) ! 0"
  using generateSimulatedHistory_nth [of 0 exact "\<lambda>i. 1 / 2" "Num 100" "Num 25"]
  by (simp add: next_price_def Let_def)

subsection \<open>generateSignals\<close>

lemma collect_analyses_filter:
  "collect_analyses analyze r luzia rand rows =
     collect_analyses analyze r luzia rand
       (filter (\<lambda>row. \<not> js_lt (row_volume r row) (Num 5000000)) rows)"
  by (induction rows arbitrary: rand) simp_all

lemma collect_analyses_assets:
  assumes "\<And>rand a h lz. asset (analyze r rand a h lz) = a"
  shows "map asset (collect_analyses analyze r luzia rand rows) =
           map row_name (filter (\<lambda>row. \<not> js_lt (row_volume r row) (Num 5000000)) rows)"
  using assms by (induction rows arbitrary: rand) simp_all

lemma collect_analyses_volume:
  assumes "\<And>rand a h lz. volume (analyze r rand a h lz) = h_volume h"
    and "s \<in> set (collect_analyses analyze r luzia rand rows)"
  shows "\<not> js_lt (volume s) (Num 5000000)"
  using assms(2)
proof (induction rows arbitrary: rand)
  case Nil
  then show ?case by simp
next
  case (Cons row rows)
  show ?case
  proof (cases "js_lt (row_volume r row) (Num 5000000)")
    case True
    then show ?thesis using Cons by simp
  next
    case False
    then consider "s = analyze r rand (row_name row) (row_hyper_data r row) (luzia (row_name row @ ''-USDT''))"
      | "s \<in> set (collect_analyses analyze r luzia (\<lambda>i. rand (i + 60)) rows)"
      using Cons.prems by auto
    then show ?thesis
    proof cases
      case 1
      then show ?thesis
        using False by (simp add: assms(1) row_hyper_data_def Let_def)
    next
      case 2
      then show ?thesis by (rule Cons.IH)
    qed
  qed
qed

lemma slice_to_prefix: "\<exists>k. slice_to n xs = take k xs"
  by (auto simp: slice_to_def)

lemma top_signals_sorted: "sorted_wrt (\<lambda>a b. score b \<le> score a) (top_signals topN analyses)"
proof -
  have "sorted (map (\<lambda>a. - score a) (sort_key (\<lambda>a. - score a) analyses))"
    by (rule sorted_sort_key)
  then have "sorted_wrt (\<lambda>a b. score b \<le> score a) (sort_key (\<lambda>a. - score a) analyses)"
    by (simp add: sorted_wrt_map)
  moreover obtain k where "top_signals topN analyses = take k (sort_key (\<lambda>a. - score a) analyses)"
    using slice_to_prefix [of topN] by (auto simp: top_signals_def)
  ultimately show ?thesis
    by (simp add: sorted_wrt_take)
qed

lemma top_signals_subset: "set (top_signals topN analyses) \<subseteq> set analyses"
proof -
  obtain k where "top_signals topN analyses = take k (sort_key (\<lambda>a. - score a) analyses)"
    using slice_to_prefix [of topN] by (auto simp: top_signals_def)
  then show ?thesis
    using set_take_subset [of k "sort_key (\<lambda>a. - score a) analyses"] by simp
qed

lemma top_signals_take:
  assumes "0 \<le> topN"
  shows "top_signals topN analyses = take (nat topN) (sort_key (\<lambda>a. - score a) analyses)"
    and "length (top_signals topN analyses) = min (nat topN) (length analyses)"
  using assms by (simp_all add: top_signals_def slice_to_def min.commute)

lemma analyzeAsset_tg_fields:
  "asset (analyzeAsset_tg r rand a h lz) = a"
  "volume (analyzeAsset_tg r rand a h lz) = h_volume h"
  by (simp_all add: analyzeAsset_tg_def Let_def split: prod.splits)

lemma analyzeAsset_fields:
  "asset (analyzeAsset r rand a h lz) = a"
  "volume (analyzeAsset r rand a h lz) = h_volume h"
  by (simp_all add: analyzeAsset_def Let_def split: prod.splits)


lemma collect_analyses_length:
  assumes "\<And>rand a h lz. asset (analyze r rand a h lz) = a"
  shows "length (collect_analyses analyze r luzia rand rows) =
           length (filter (\<lambda>row. \<not> js_lt (row_volume r row) (Num 5000000)) rows)"
  using collect_analyses_assets [of analyze r luzia rand rows, OF assms]
  by (metis length_map)

text \<open>
  C9. In both programs: an asset with a volume below 5,000,000 is skipped before it is
  analyzed (the analyses are those of the other rows, in order, and the result is the one
  of the list without the skipped rows: they draw no random numbers and fetch no ticker);
  every signal of the output has a volume that is not below 5,000,000; the output is
  sorted by descending score; and for a top-N of at least 0 it is the first N analyses of
  the sorted list.
\<close>

theorem C9_generateSignals:
  "sorted_wrt (\<lambda>a b. score b \<le> score a) (generateSignals r luzia rand topN rows) \<and>
   (\<forall>s \<in> set (generateSignals r luzia rand topN rows). \<not> js_lt (volume s) (Num 5000000)) \<and>
   generateSignals r luzia rand topN rows =
     generateSignals r luzia rand topN
       (filter (\<lambda>row. \<not> js_lt (row_volume r row) (Num 5000000)) rows) \<and>
   map asset (collect_analyses analyzeAsset r luzia rand rows) =
     map row_name (filter (\<lambda>row. \<not> js_lt (row_volume r row) (Num 5000000)) rows) \<and>
   (0 \<le> topN \<longrightarrow>
      generateSignals r luzia rand topN rows =
        take (nat topN) (sort_key (\<lambda>a. - score a) (collect_analyses analyzeAsset r luzia rand rows)) \<and>
      length (generateSignals r luzia rand topN rows) =
        min (nat topN) (length (filter (\<lambda>row. \<not> js_lt (row_volume r row) (Num 5000000)) rows))) \<and>
   sorted_wrt (\<lambda>a b. score b \<le> score a) (generateSignals_tg r luzia rand topN rows) \<and>
   (\<forall>s \<in> set (generateSignals_tg r luzia rand topN rows). \<not> js_lt (volume s) (Num 5000000)) \<and>
   generateSignals_tg r luzia rand topN rows =
     generateSignals_tg r luzia rand topN
       (filter (\<lambda>row. \<not> js_lt (row_volume r row) (Num 5000000)) rows) \<and>
   map asset (collect_analyses analyzeAsset_tg r luzia rand rows) =
     map row_name (filter (\<lambda>row. \<not> js_lt (row_volume r row) (Num 5000000)) rows) \<and>
   (0 \<le> topN \<longrightarrow>
      generateSignals_tg r luzia rand topN rows =
        take (nat topN) (sort_key (\<lambda>a. - score a) (collect_analyses analyzeAsset_tg r luzia rand rows)) \<and>
      length (generateSignals_tg r luzia rand topN rows) =
        min (nat topN) (length (filter (\<lambda>row. \<not> js_lt (row_volume r row) (Num 5000000)) rows)))"
proof -
  have v: "\<not> js_lt (volume s) (Num 5000000)"
    if "s \<in> set (generateSignals r luzia rand topN rows)" for s
  proof -
    have "s \<in> set (collect_analyses analyzeAsset r luzia rand rows)"
      using that top_signals_subset by (auto simp: generateSignals_def)
    then show ?thesis
      by (rule collect_analyses_volume [rotated]) (rule analyzeAsset_fields(2))
  qed
  have v_tg: "\<not> js_lt (volume s) (Num 5000000)"
    if "s \<in> set (generateSignals_tg r luzia rand topN rows)" for s
  proof -
    have "s \<in> set (collect_analyses analyzeAsset_tg r luzia rand rows)"
      using that top_signals_subset by (auto simp: generateSignals_tg_def)
    then show ?thesis
      by (rule collect_analyses_volume [rotated]) (rule analyzeAsset_tg_fields(2))
  qed
  have f: "generateSignals r luzia rand topN rows =
     generateSignals r luzia rand topN
       (filter (\<lambda>row. \<not> js_lt (row_volume r row) (Num 5000000)) rows)"
    unfolding generateSignals_def by (subst collect_analyses_filter) (rule refl)
  have f_tg: "generateSignals_tg r luzia rand topN rows =
     generateSignals_tg r luzia rand topN
       (filter (\<lambda>row. \<not> js_lt (row_volume r row) (Num 5000000)) rows)"
    unfolding generateSignals_tg_def by (subst collect_analyses_filter) (rule refl)
  have a: "map asset (collect_analyses analyzeAsset r luzia rand rows) =
     map row_name (filter (\<lambda>row. \<not> js_lt (row_volume r row) (Num 5000000)) rows)"
    by (rule collect_analyses_assets) (rule analyzeAsset_fields(1))
  have a_tg: "map asset (collect_analyses analyzeAsset_tg r luzia rand rows) =
     map row_name (filter (\<lambda>row. \<not> js_lt (row_volume r row) (Num 5000000)) rows)"
    by (rule collect_analyses_assets) (rule analyzeAsset_tg_fields(1))
  have l: "length (collect_analyses analyzeAsset r luzia rand rows) =
      length (filter (\<lambda>row. \<not> js_lt (row_volume r row) (Num 5000000)) rows)"
    by (rule collect_analyses_length) (rule analyzeAsset_fields(1))
  have l_tg: "length (collect_analyses analyzeAsset_tg r luzia rand rows) =
      length (filter (\<lambda>row. \<not> js_lt (row_volume r row) (Num 5000000)) rows)"
    by (rule collect_analyses_length) (rule analyzeAsset_tg_fields(1))
  have s: "sorted_wrt (\<lambda>a b. score b \<le> score a) (generateSignals r luzia rand topN rows)"
    unfolding generateSignals_def by (rule top_signals_sorted)
  have s_tg: "sorted_wrt (\<lambda>a b. score b \<le> score a) (generateSignals_tg r luzia rand topN rows)"
    unfolding generateSignals_tg_def by (rule top_signals_sorted)
  have t: "generateSignals r luzia rand topN rows =
        take (nat topN) (sort_key (\<lambda>a. - score a) (collect_analyses analyzeAsset r luzia rand rows)) \<and>
      length (generateSignals r luzia rand topN rows) =
        min (nat topN) (length (filter (\<lambda>row. \<not> js_lt (row_volume r row) (Num 5000000)) rows))"
    if "0 \<le> topN"
    using top_signals_take [OF that, of "collect_analyses analyzeAsset r luzia rand rows"] l
    by (simp add: generateSignals_def)
  have t_tg: "generateSignals_tg r luzia rand topN rows =
        take (nat topN) (sort_key (\<lambda>a. - score a) (collect_analyses analyzeAsset_tg r luzia rand rows)) \<and>
      length (generateSignals_tg r luzia rand topN rows) =
        min (nat topN) (length (filter (\<lambda>row. \<not> js_lt (row_volume r row) (Num 5000000)) rows))"
    if "0 \<le> topN"
    using top_signals_take [OF that, of "collect_analyses analyzeAsset_tg r luzia rand rows"] l_tg
    by (simp add: generateSignals_tg_def)
  show ?thesis
    using v v_tg f f_tg a a_tg s s_tg t t_tg by blast
qed


theorem C9_generateSignals_witness:
  "map asset (generateSignals exact (\<lambda>s. None) (\<lambda>i. 1 / 2) 10
     [sample_row ''BTC'' 4, sample_row ''ETH'' 60, sample_row ''SOL'' 4.9]) = [''ETH''] \<and>
   map asset (generateSignals_tg exact (\<lambda>s. None) (\<lambda>i. 1 / 2) 10
     [sample_row ''BTC'' 4, sample_row ''ETH'' 60, sample_row ''SOL'' 4.9]) = [''ETH'']"
proof -
  let ?rows = "[sample_row ''BTC'' 4, sample_row ''ETH'' 60, sample_row ''SOL'' 4.9]"
  note t = C9_generateSignals [of exact "\<lambda>s. None" "\<lambda>i. 1 / 2" 10 ?rows]
  note t4 = t [THEN conjunct2, THEN conjunct2, THEN conjunct2]
  note t5 = t4 [THEN conjunct2]
  note t9 = t5 [THEN conjunct2, THEN conjunct2, THEN conjunct2, THEN conjunct2]
  note t10 = t9 [THEN conjunct2]
  have filt: "filter (\<lambda>row. \<not> js_lt (row_volume exact row) (Num 5000000)) ?rows =
                [sample_row ''ETH'' 60]"
    by (simp add: row_volume_def sample_row_def)
  have "map asset (collect_analyses analyzeAsset exact (\<lambda>s. None) (\<lambda>i. 1 / 2) ?rows) = [''ETH'']"
    using t4 [THEN conjunct1] unfolding filt by (simp add: sample_row_def)
  then obtain x where x: "collect_analyses analyzeAsset exact (\<lambda>s. None) (\<lambda>i. 1 / 2) ?rows = [x]"
      "asset x = ''ETH''"
    by (auto simp: map_eq_Cons_conv)
  have "map asset (collect_analyses analyzeAsset_tg exact (\<lambda>s. None) (\<lambda>i. 1 / 2) ?rows) = [''ETH'']"
    using t9 [THEN conjunct1] unfolding filt by (simp add: sample_row_def)
  then obtain y where y: "collect_analyses analyzeAsset_tg exact (\<lambda>s. None) (\<lambda>i. 1 / 2) ?rows = [y]"
      "asset y = ''ETH''"
    by (auto simp: map_eq_Cons_conv)
  have ten: "(0::int) \<le> 10" by simp
  have "generateSignals exact (\<lambda>s. None) (\<lambda>i. 1 / 2) 10 ?rows =
          take (nat 10) (sort_key (\<lambda>a. - score a)
            (collect_analyses analyzeAsset exact (\<lambda>s. None) (\<lambda>i. 1 / 2) ?rows))"
    using t5 [THEN conjunct1, rule_format, OF ten] by (rule conjunct1)
  moreover have "generateSignals_tg exact (\<lambda>s. None) (\<lambda>i. 1 / 2) 10 ?rows =
          take (nat 10) (sort_key (\<lambda>a. - score a)
            (collect_analyses analyzeAsset_tg exact (\<lambda>s. None) (\<lambda>i. 1 / 2) ?rows))"
    using t10 [rule_format, OF ten] by (rule conjunct1)
  ultimately show ?thesis
    unfolding x y by (simp add: x y)
qed

subsection \<open>The MACD rule on a full series\<close>

text \<open>The MACD line is a rounded difference, or not a finite number.\<close>

lemma js_sub_cases:
  "(\<exists>z. js_sub r x y = Num (r z)) \<or> js_sub r x y = PosInf \<or> js_sub r x y = NegInf \<or>
   js_sub r x y = NaN"
  by (cases x; cases y) (auto simp: js_sub_def)

lemma literal_85:
  assumes "to_nearest r"
  shows "0 < r 0.85" and "r 0.85 \<le> 0.86"
  using to_nearest_normal [OF assms, of "0.85"] by simp_all

lemma bullish_histogram:
  assumes "to_nearest r"
    and "(\<exists>z. m = Num (r z)) \<or> m = PosInf \<or> m = NegInf \<or> m = NaN"
  shows "js_gt m (js_mul r m (Num (r 0.85))) \<longleftrightarrow>
         js_gt (js_sub r m (js_mul r m (Num (r 0.85)))) (Num 0)"
proof -
  note c = literal_85 [OF assms(1)]
  consider z where "m = Num (r z)" | "m = PosInf" | "m = NegInf" | "m = NaN"
    using assms(2) by blast
  then show ?thesis
  proof cases
    case 1
    define s where "s = r (r z * r 0.85)"
    have gap: "0 < r (r z - s)" if "s < r z"
      using that unfolding s_def by (rule to_nearest_gap [OF assms(1)])
    have "r (r z - s) \<le> 0" if "\<not> s < r z"
      using that by (intro to_nearest_keeps_sign(3) [OF assms(1)]) simp
    then have "s < r z \<longleftrightarrow> 0 < r (r z - s)"
      using gap by fastforce
    then show ?thesis
      by (simp add: 1 s_def)
  next
    case 2
    then show ?thesis using c by (simp add: js_gt_def js_sub_def)
  next
    case 3
    then show ?thesis using c by (simp add: js_gt_def js_sub_def)
  next
    case 4
    then show ?thesis by (simp add: js_gt_def js_sub_def)
  qed
qed

lemma bullish_positive:
  assumes "to_nearest r"
    and "(\<exists>z. m = Num (r z)) \<or> m = PosInf \<or> m = NegInf \<or> m = NaN"
    and "js_gt m (js_mul r m (Num (r 0.85)))"
  shows "js_gt m (Num 0)"
proof -
  note c = literal_85 [OF assms(1)]
  consider z where "m = Num (r z)" | "m = PosInf" | "m = NegInf" | "m = NaN"
    using assms(2) by blast
  then show ?thesis
  proof cases
    case 1
    have less: "r (r z * r 0.85) < r z"
      using assms(3) by (simp add: 1)
    show ?thesis
    proof (rule ccontr)
      assume "\<not> js_gt m (Num 0)"
      then have neg: "r z \<le> 0"
        by (simp add: 1)
      have "r z * 1 \<le> r z * r 0.85"
        using neg c by (intro mult_left_mono_neg) simp_all
      then have "r z \<le> r (r z * r 0.85)"
        by (intro to_nearest_above [OF assms(1)]) simp
      then show False using less by simp
    qed
  next
    case 2
    then show ?thesis by (simp add: js_gt_def)
  next
    case 3
    then show ?thesis using assms(3) c by (simp add: js_gt_def)
  next
    case 4
    then show ?thesis using assms(3) by (simp add: js_gt_def)
  qed
qed

lemma positive_bullish:
  assumes "to_nearest r" and "1 / 2 ^ 1072 \<le> v"
  shows "js_gt (Num v) (js_mul r (Num v) (Num (r 0.85)))"
proof -
  note c = literal_85 [OF assms(1)]
  define z where "z = v * r 0.85"
  have v: "0 < v"
    using assms(2) by (smt (verit) divide_pos_pos zero_less_power zero_less_one)
  have "v * r 0.85 \<le> v * 0.86"
    using c v by (intro mult_left_mono) simp_all
  then have "z \<le> v * 0.86"
    by (simp only: z_def)
  moreover have "0 \<le> z"
    using c v by (simp add: z_def)
  then have "r z \<le> z * (1 + 1 / 2 ^ 53) + 1 / 2 ^ 1075"
    by (rule to_nearest_bounds(2) [OF assms(1)])
  ultimately have "r z < v"
    using assms(2) by (simp; linarith)
  then show ?thesis
    by (simp add: z_def)
qed

lemma calculateMACD_nearest:
  assumes "to_nearest r" and "35 \<le> length prices"
  shows "bullish (calculateMACD r prices) \<longleftrightarrow>
           js_gt (to_number (histogram (calculateMACD r prices))) (Num 0)"
    and "bullish (calculateMACD r prices) \<longrightarrow> js_gt (macd (calculateMACD r prices)) (Num 0)"
    and "macd (calculateMACD r prices) = Num v \<and> 1 / 2 ^ 1072 \<le> v
           \<longrightarrow> bullish (calculateMACD r prices)"
proof -
  let ?m = "js_sub r (to_number (calculateEMA r prices 12)) (to_number (calculateEMA r prices 26))"
  have m: "(\<exists>z. ?m = Num (r z)) \<or> ?m = PosInf \<or> ?m = NegInf \<or> ?m = NaN"
    by (rule js_sub_cases)
  show "bullish (calculateMACD r prices) \<longleftrightarrow>
           js_gt (to_number (histogram (calculateMACD r prices))) (Num 0)"
    using bullish_histogram [OF assms(1) m] by (simp add: calculateMACD_long [OF assms(2)])
  show "bullish (calculateMACD r prices) \<longrightarrow> js_gt (macd (calculateMACD r prices)) (Num 0)"
    using bullish_positive [OF assms(1) m] by (simp add: calculateMACD_long [OF assms(2)])
  show "macd (calculateMACD r prices) = Num v \<and> 1 / 2 ^ 1072 \<le> v
           \<longrightarrow> bullish (calculateMACD r prices)"
    using positive_bullish [OF assms(1), of v] by (auto simp: calculateMACD_long [OF assms(2)])
qed

lemma macd_scoring_cases:
  "macd_scoring m (sc, ls, b) =
     (if bullish m \<and> js_gt (to_number (histogram m)) (Num 0) then (sc + 20, ls @ [''MACD Bullish''], b)
      else if bullish m then (sc + 10, ls @ [''MACD Above Signal''], b)
      else (sc, ls, b))"
  by simp

lemma above_signal_rsi_tg:
  "''MACD Above Signal'' \<in> set (fst (snd (rsi_scoring_tg x st))) \<longleftrightarrow>
   ''MACD Above Signal'' \<in> set (fst (snd st))"
  by (cases st) simp

lemma above_signal_rsi:
  "''MACD Above Signal'' \<in> set (fst (snd (rsi_scoring x st))) \<longleftrightarrow>
   ''MACD Above Signal'' \<in> set (fst (snd st))"
  by (cases st) simp

lemma above_signal_macd:
  "''MACD Above Signal'' \<in> set (fst (snd (macd_scoring m st))) \<longleftrightarrow>
   ''MACD Above Signal'' \<in> set (fst (snd st)) \<or>
   (bullish m \<and> \<not> js_gt (to_number (histogram m)) (Num 0))"
  by (cases st) auto

lemma above_signal_ema:
  "''MACD Above Signal'' \<in> set (fst (snd (ema_scoring p e9 e21 e50 st))) \<longleftrightarrow>
   ''MACD Above Signal'' \<in> set (fst (snd st))"
  by (cases st) (simp add: Let_def)

lemma above_signal_bb:
  "''MACD Above Signal'' \<in> set (fst (snd (bb_scoring x st))) \<longleftrightarrow>
   ''MACD Above Signal'' \<in> set (fst (snd st))"
  by (cases st) simp

lemma above_signal_momentum:
  "''MACD Above Signal'' \<in> set (fst (snd (momentum_scoring x st))) \<longleftrightarrow>
   ''MACD Above Signal'' \<in> set (fst (snd st))"
  by (cases st) simp

lemma above_signal_funding_tg:
  "''MACD Above Signal'' \<in> set (fst (snd (funding_scoring_tg r x st))) \<longleftrightarrow>
   ''MACD Above Signal'' \<in> set (fst (snd st))"
  by (cases st) simp

lemma above_signal_funding:
  "''MACD Above Signal'' \<in> set (fst (snd (funding_scoring r x st))) \<longleftrightarrow>
   ''MACD Above Signal'' \<in> set (fst (snd st))"
  by (cases st) simp

lemma above_signal_volume:
  "''MACD Above Signal'' \<in> set (fst (snd (volume_scoring x st))) \<longleftrightarrow>
   ''MACD Above Signal'' \<in> set (fst (snd st))"
  by (cases st) (simp add: Let_def)

lemmas above_signal_others =
  above_signal_rsi_tg above_signal_rsi above_signal_ema above_signal_bb above_signal_momentum
  above_signal_funding_tg above_signal_funding above_signal_volume

lemma above_signal_score_asset_tg:
  "''MACD Above Signal'' \<in> set (fst (snd (score_asset_tg r x m p e9 e21 e50 c f v))) \<longleftrightarrow>
   bullish m \<and> \<not> js_gt (to_number (histogram m)) (Num 0)"
  by (simp add: score_asset_tg_def above_signal_others above_signal_macd)

lemma above_signal_score_asset:
  "''MACD Above Signal'' \<in> set (fst (snd (score_asset r x m p e9 e21 e50 bo c f v))) \<longleftrightarrow>
   bullish m \<and> \<not> js_gt (to_number (histogram m)) (Num 0)"
  by (simp add: score_asset_def above_signal_others above_signal_macd)

lemma analyzeAsset_tg_signals:
  "signals (analyzeAsset_tg r rand a h lz) =
     fst (snd (score_asset_tg r (rsi (analyzeAsset_tg r rand a h lz))
       (calculateMACD r (generateSimulatedHistory r rand (h_markPx h) (js_or lz (h_momentum h))))
       (price (analyzeAsset_tg r rand a h lz)) (ema9 (analyzeAsset_tg r rand a h lz))
       (ema21 (analyzeAsset_tg r rand a h lz)) (ema50 (analyzeAsset_tg r rand a h lz))
       (change24h (analyzeAsset_tg r rand a h lz)) (funding (analyzeAsset_tg r rand a h lz))
       (volume (analyzeAsset_tg r rand a h lz))))"
  by (simp add: analyzeAsset_tg_def Let_def split: prod.splits)

lemma analyzeAsset_signals:
  "signals (analyzeAsset r rand a h lz) =
     fst (snd (score_asset r (rsi (analyzeAsset r rand a h lz))
       (calculateMACD r (generateSimulatedHistory r rand (h_markPx h) (js_or lz (h_momentum h))))
       (price (analyzeAsset r rand a h lz)) (ema9 (analyzeAsset r rand a h lz))
       (ema21 (analyzeAsset r rand a h lz)) (ema50 (analyzeAsset r rand a h lz))
       (bb (analyzeAsset r rand a h lz))
       (change24h (analyzeAsset r rand a h lz)) (funding (analyzeAsset r rand a h lz))
       (volume (analyzeAsset r rand a h lz))))"
  by (simp add: analyzeAsset_def Let_def split: prod.splits)

lemma above_signal_unreachable:
  assumes "to_nearest r"
  shows "''MACD Above Signal'' \<notin> set (signals (analyzeAsset_tg r rand a h lz))"
    and "''MACD Above Signal'' \<notin> set (signals (analyzeAsset r rand a h lz))"
proof -
  let ?prices = "generateSimulatedHistory r rand (h_markPx h) (js_or lz (h_momentum h))"
  have "35 \<le> length ?prices"
    by (simp add: generateSimulatedHistory_length)
  then have "bullish (calculateMACD r ?prices) \<longrightarrow>
      js_gt (to_number (histogram (calculateMACD r ?prices))) (Num 0)"
    using calculateMACD_nearest(1) [OF assms] by blast
  then show "''MACD Above Signal'' \<notin> set (signals (analyzeAsset_tg r rand a h lz))"
    and "''MACD Above Signal'' \<notin> set (signals (analyzeAsset r rand a h lz))"
    unfolding analyzeAsset_tg_signals analyzeAsset_signals
      above_signal_score_asset_tg above_signal_score_asset by blast+
qed

text \<open>In exact arithmetic the histogram is 0.15 times the MACD line.\<close>

lemma macd_exact:
  assumes "35 \<le> length xs"
  shows "\<exists>v. macd (calculateMACD exact (map Num xs)) = Num v \<and>
             signal (calculateMACD exact (map Num xs)) = Num (0.85 * v) \<and>
             histogram (calculateMACD exact (map Num xs)) = Some (Num (0.15 * v)) \<and>
             bullish (calculateMACD exact (map Num xs)) = (0 < v)"
proof -
  obtain v where v: "macd (calculateMACD exact (map Num xs)) = Num v"
    using calculateMACD_finite [OF assms] by blast
  have len: "35 \<le> length (map Num xs)" using assms by simp
  have s: "signal (calculateMACD exact (map Num xs)) = Num (0.85 * v)"
    by (simp add: calculateMACD_long(2) [OF len] v)
  have h: "histogram (calculateMACD exact (map Num xs)) = Some (Num (0.15 * v))"
    by (simp add: calculateMACD_long(3) [OF len] v s)
  have b: "bullish (calculateMACD exact (map Num xs)) = (0 < v)"
    by (simp add: calculateMACD_long(4) [OF len] v s)
  show ?thesis using v s h b by blast
qed

text \<open>Without underflow the sign of the MACD line decides.\<close>

lemma macd_faithful:
  assumes "faithful r" and "35 \<le> length xs"
  shows "bullish (calculateMACD r (map Num xs)) \<longleftrightarrow>
            js_gt (macd (calculateMACD r (map Num xs))) (Num 0)"
proof -
  obtain v where v: "macd (calculateMACD r (map Num xs)) = Num v"
    using calculateMACD_finite [OF assms(2)] by blast
  have len: "35 \<le> length (map Num xs)" using assms(2) by simp
  have b: "bullish (calculateMACD r (map Num xs)) = (r (v * r 0.85) < v)"
    by (simp add: calculateMACD_long(4) [OF len] calculateMACD_long(2) [OF len] v)
  have b0: "r (v * r 0.85) < v \<longleftrightarrow> 0 < v"
    using faithful_signal_below [OF assms(1), of v] faithful_signal_above [OF assms(1), of v]
      faithful_zero [OF assms(1)]
    by (cases "0 < v"; cases "v = 0") auto
  show ?thesis
    using b0 by (simp add: v b)
qed

lemma macd_scoring_short:
  assumes "length prices < 35"
  shows "macd_scoring (calculateMACD r prices) (sc, ls, b) =
           (sc + 10, ls @ [''MACD Above Signal''], b)"
  using assms by (simp add: calculateMACD_short js_gt_def)

text \<open>
  An underflow: 34 prices of 0 and a last price of \<open>2^-1072\<close>. The fast average rounds
  to the smallest subnormal number \<open>2^-1074\<close> and the slow one to 0, so the MACD line is
  \<open>2^-1074\<close>; 0.85 times it rounds back to \<open>2^-1074\<close>.
\<close>

lemma calculateEMA_zeros_last:
  assumes "0 < period" and "period \<le> n" and "r 0 = 0"
  shows "calculateEMA r (replicate n (Num 0) @ [Num x]) period =
           Some (Num (r (r (r x * r (2 / (real period + 1))))))"
proof -
  let ?data = "replicate n (Num 0) @ [Num x]"
  have seed: "js_div r (js_sum r (take period ?data)) (Num (real period)) = Num 0"
    using assms by (simp add: js_sum_def foldl_js_add_zeros)
  have mult: "js_div r (Num 2) (Num (real period + 1)) = Num (r (2 / (real period + 1)))"
    by (simp add: add_nonneg_eq_0_iff)
  have zeros: "foldl (\<lambda>ema i. js_add r (js_mul r (js_sub r (?data ! i) ema)
                 (Num (r (2 / (real period + 1))))) ema) (Num 0) [period..<n] = Num 0"
    by (rule ema_loop_constant) (simp_all add: assms(3) nth_append)
  have range: "[period..<length ?data] = [period..<n] @ [n]"
    using assms(2) by simp
  have final: "?data ! n = Num x"
    by (simp add: nth_append)
  show ?thesis
    using assms(2) unfolding calculateEMA_def Let_def seed mult range
    by (simp add: zeros final assms(3))
qed

lemma double_literals:
  "double (2 / 13) = 1385722962267845 / 9007199254740992"
  "double (2 / 27) = 667199944795629 / 9007199254740992"
  "double 0.85 = 7656119366529843 / 9007199254740992"
proof -
  show "double (2 / 13) = 1385722962267845 / 9007199254740992"
    by (subst double_small [where n = 3]) (simp_all add: round_half_even_def)
  show "double (2 / 27) = 667199944795629 / 9007199254740992"
    by (subst double_small [where n = 4]) (simp_all add: round_half_even_def)
  show "double 0.85 = 7656119366529843 / 9007199254740992"
    by (subst double_small [where n = 1]) (simp_all add: round_half_even_def)
qed

lemma calculateMACD_underflow_steps:
  assumes "double (4 * u) = 4 * u"
    and "double (double (4 * u) * double (2 / 13)) = u"
    and "double (double (4 * u) * double (2 / 27)) = 0"
    and "double u = u"
    and "double (u * double 0.85) = u"
  shows "calculateMACD double (replicate 34 (Num 0) @ [Num (4 * u)]) =
     \<lparr>macd = Num u, signal = Num u, histogram = Some (Num 0), bullish = False\<rparr>"
proof -
  have e12: "calculateEMA double (replicate 34 (Num 0) @ [Num (4 * u)]) 12 = Some (Num u)"
    using assms by (subst calculateEMA_zeros_last) simp_all
  have e26: "calculateEMA double (replicate 34 (Num 0) @ [Num (4 * u)]) 26 = Some (Num 0)"
    using assms by (subst calculateEMA_zeros_last) simp_all
  show ?thesis
    using assms by (simp add: calculateMACD_def Let_def e12 e26)
qed

lemma calculateMACD_underflow:
  "calculateMACD double (replicate 34 (Num 0) @ [Num (1 / 2 ^ 1072)]) =
     \<lparr>macd = Num (1 / 2 ^ 1074), signal = Num (1 / 2 ^ 1074), histogram = Some (Num 0),
      bullish = False\<rparr>"
proof -
  have 1: "double (4 * (1 / 2 ^ 1074)) = 4 * (1 / 2 ^ 1074)"
    by (subst double_tiny) (simp_all add: round_half_even_def)
  have 2: "double (double (4 * (1 / 2 ^ 1074)) * double (2 / 13)) = 1 / 2 ^ 1074"
    unfolding 1 double_literals by (subst double_tiny) (simp_all add: round_half_even_def)
  have 3: "double (double (4 * (1 / 2 ^ 1074)) * double (2 / 27)) = 0"
    unfolding 1 double_literals by (subst double_tiny) (simp_all add: round_half_even_def)
  have 4: "double (1 / 2 ^ 1074) = 1 / 2 ^ 1074"
    by (subst double_tiny) (simp_all add: round_half_even_def)
  have 5: "double (1 / 2 ^ 1074 * double 0.85) = 1 / 2 ^ 1074"
    unfolding double_literals by (subst double_tiny) (simp_all add: round_half_even_def)
  have "(1::real) / 2 ^ 1072 = 4 * (1 / 2 ^ 1074)"
    by simp
  then show ?thesis
    using calculateMACD_underflow_steps [OF 1 2 3 4 5] by (simp only:)
qed

text \<open>
  C10, as amended. For every price sequence of at least 35 points and every rounding to
  nearest (exact arithmetic, doubles), the MACD result is bullish if and only if the
  histogram is above 0; a bullish result has its MACD line above 0; and a MACD line of
  at least \<open>2^-1072\<close> is bullish. Below that the product by 0.85 can round back to the
  MACD line: the result is then not bullish and the histogram is 0, although the line is
  above 0. Without underflow (a faithful rounding, finite prices) bullish holds if and
  only if the MACD line is above 0, and in exact arithmetic the histogram is 0.15 times
  the MACD line. So, for every rounding to nearest, an analysis, which scores a series of
  120 points, never carries the label MACD Above Signal; the branch fires on the default
  result of a series shorter than 35, which has no histogram.
\<close>

theorem C10_macd_above_signal_unreachable:
  "(35 \<le> length prices \<and> to_nearest r \<longrightarrow>
      (bullish (calculateMACD r prices) \<longleftrightarrow>
         js_gt (to_number (histogram (calculateMACD r prices))) (Num 0)) \<and>
      (bullish (calculateMACD r prices) \<longrightarrow> js_gt (macd (calculateMACD r prices)) (Num 0)) \<and>
      (macd (calculateMACD r prices) = Num v \<and> 1 / 2 ^ 1072 \<le> v \<longrightarrow>
         bullish (calculateMACD r prices))) \<and>
   (35 \<le> length xs \<and> faithful r \<longrightarrow>
      (bullish (calculateMACD r (map Num xs)) \<longleftrightarrow>
         js_gt (macd (calculateMACD r (map Num xs))) (Num 0))) \<and>
   (35 \<le> length xs \<longrightarrow>
      (\<exists>v. macd (calculateMACD exact (map Num xs)) = Num v \<and>
           histogram (calculateMACD exact (map Num xs)) = Some (Num (0.15 * v)))) \<and>
   (to_nearest r \<longrightarrow>
      ''MACD Above Signal'' \<notin> set (signals (analyzeAsset_tg r rand a h lz)) \<and>
      ''MACD Above Signal'' \<notin> set (signals (analyzeAsset r rand a h lz))) \<and>
   (length prices < 35 \<longrightarrow>
      macd_scoring (calculateMACD r prices) (sc, ls, b) =
        (sc + 10, ls @ [''MACD Above Signal''], b))"
proof -
  have 1: "\<exists>v. macd (calculateMACD exact (map Num xs)) = Num v \<and>
           histogram (calculateMACD exact (map Num xs)) = Some (Num (0.15 * v))"
    if len: "35 \<le> length xs"
    using macd_exact [OF len] by blast
  have 2: "(bullish (calculateMACD r prices) \<longleftrightarrow>
         js_gt (to_number (histogram (calculateMACD r prices))) (Num 0)) \<and>
      (bullish (calculateMACD r prices) \<longrightarrow> js_gt (macd (calculateMACD r prices)) (Num 0)) \<and>
      (macd (calculateMACD r prices) = Num v \<and> 1 / 2 ^ 1072 \<le> v \<longrightarrow>
         bullish (calculateMACD r prices))"
    if "35 \<le> length prices" and "to_nearest r"
    using calculateMACD_nearest [OF that(2,1)] by blast
  have 3: "''MACD Above Signal'' \<notin> set (signals (analyzeAsset_tg r rand a h lz)) \<and>
      ''MACD Above Signal'' \<notin> set (signals (analyzeAsset r rand a h lz))"
    if "to_nearest r"
    using above_signal_unreachable [OF that] by blast
  show ?thesis
    using 1 2 3 macd_faithful [of r xs] macd_scoring_short [of prices r sc ls b] by blast
qed

theorem C10_macd_above_signal_witness:
  "\<not> bullish (calculateMACD exact (map Num (replicate 35 1))) \<and>
   \<not> bullish (calculateMACD double (replicate 34 (Num 0) @ [Num (1 / 2 ^ 1072)])) \<and>
   ''MACD Above Signal'' \<notin> set (signals (analyzeAsset_tg double (\<lambda>i. 1 / 2) ''ETH''
      (row_hyper_data double (sample_row ''ETH'' 60)) None)) \<and>
   ''MACD Above Signal'' \<notin> set (signals (analyzeAsset double (\<lambda>i. 1 / 2) ''ETH''
      (row_hyper_data double (sample_row ''ETH'' 60)) None)) \<and>
   macd_scoring (calculateMACD double [Num 1, Num 2]) (0, [], NEUTRAL) =
     (10, [''MACD Above Signal''], NEUTRAL)"
proof -
  note t = C10_macd_above_signal_unreachable [where r = double
      and prices = "[Num 1, Num 2]" and rand = "\<lambda>i. 1 / 2" and a = "''ETH''"
      and h = "row_hyper_data double (sample_row ''ETH'' 60)" and lz = None
      and sc = 0 and ls = "[]" and b = NEUTRAL]
  note e = C10_macd_above_signal_unreachable [where r = exact and xs = "replicate 35 1"]
  note u = C10_macd_above_signal_unreachable [where r = double
      and prices = "replicate 34 (Num 0) @ [Num (1 / 2 ^ 1072)]"]
  have len: "35 \<le> length (replicate 35 (1::real)) \<and> faithful exact"
    by (simp add: faithful_exact)
  have "macd (calculateMACD exact (map Num (replicate 35 1))) = Num 0"
    using calculateEMA_replicate [of 12 35 exact 1] calculateEMA_replicate [of 26 35 exact 1]
    by (simp add: calculateMACD_long exact_def)
  then have "\<not> bullish (calculateMACD exact (map Num (replicate 35 1)))"
    using e [THEN conjunct2, THEN conjunct1, THEN mp, OF len] by simp
  moreover have "35 \<le> length (replicate 34 (Num 0) @ [Num (1 / 2 ^ 1072)]) \<and> to_nearest double"
    by (simp add: to_nearest_double)
  then have "\<not> bullish (calculateMACD double (replicate 34 (Num 0) @ [Num (1 / 2 ^ 1072)]))"
    using u [THEN conjunct1, THEN mp, THEN conjunct1] unfolding calculateMACD_underflow by simp
  moreover note t [THEN conjunct2, THEN conjunct2, THEN conjunct2, THEN conjunct1, THEN mp,
      OF to_nearest_double]
  moreover have "macd_scoring (calculateMACD double [Num 1, Num 2]) (0, [], NEUTRAL) =
     (10, [''MACD Above Signal''], NEUTRAL)"
    using t [THEN conjunct2, THEN conjunct2, THEN conjunct2, THEN conjunct2] by simp
  ultimately show ?thesis by blast
qed

text \<open>
  With doubles the MACD line can be above 0 and the result not bullish:
  \<open>calculateMACD\<close> of 34 prices of 0 followed by \<open>2^-1072\<close> has a MACD line and a signal
  line of \<open>2^-1074\<close> (5e-324) and a histogram of 0.
\<close>

theorem C10_macd_counterexample:
  "macd (calculateMACD double (replicate 34 (Num 0) @ [Num (1 / 2 ^ 1072)])) = Num (1 / 2 ^ 1074) \<and>
   signal (calculateMACD double (replicate 34 (Num 0) @ [Num (1 / 2 ^ 1072)])) = Num (1 / 2 ^ 1074) \<and>
   histogram (calculateMACD double (replicate 34 (Num 0) @ [Num (1 / 2 ^ 1072)])) = Some (Num 0) \<and>
   js_gt (macd (calculateMACD double (replicate 34 (Num 0) @ [Num (1 / 2 ^ 1072)]))) (Num 0) \<and>
   \<not> bullish (calculateMACD double (replicate 34 (Num 0) @ [Num (1 / 2 ^ 1072)])) \<and>
   \<not> js_gt (to_number (histogram
         (calculateMACD double (replicate 34 (Num 0) @ [Num (1 / 2 ^ 1072)])))) (Num 0)"
  unfolding calculateMACD_underflow by simp

end
